theory Spec2Isabelle
  imports Complex_Main "HOL-Library.AList"
begin

text \<open>
  A browser-automation agent: the action agent (\<open>CrawlerAgent\<close>), which guards every
  action by its \<open>isInitialized\<close> flag and turns every fault of the driver into a failed
  result, and the AI-enhanced agent built on it (\<open>AIEnhancedAgent\<close>), which locates
  elements from a description, creates plans and executes them. The driver and the
  browser engine behind it, the reasoning service, the clock and the file system are
  outside the program and appear as parameters.
\<close>

section \<open>Strings and numbers of the host language\<close>

text \<open>
  Strings are lists of the units the host language's strings are made of.
  \<open>String.prototype.trim\<close>, \<open>toLowerCase\<close> and \<open>substring\<close> belong to the language, not to
  the program, and follow the Unicode tables: they are parameters of the model (fields
  \<open>trim\<close>, \<open>toLowerCase\<close> and \<open>substring\<close> of the environment below), and no property
  of them is assumed. \<open>strIncludes\<close> is the substring test of
  \<open>String.prototype.includes\<close>. Template literals print a non-negative integer in decimal
  (\<open>showNat\<close>).

  \<open>asciiTrim\<close>, \<open>asciiToLowerCase\<close> and \<open>asciiSubstring\<close> are what the three functions do on
  text that is ASCII only: the white space there is tab, line feed, vertical tab, form
  feed, carriage return and space, and the letters with a lower case are A to Z. They
  serve the concrete examples, whose texts are ASCII.
\<close>

definition quoted :: "string \<Rightarrow> string" where
  "quoted s = [CHR 0x22] @ s @ [CHR 0x22]"

definition asciiSpace :: "char \<Rightarrow> bool" where
  "asciiSpace c = (c \<in> set [CHR 0x09, CHR 0x0A, CHR 0x0B, CHR 0x0C, CHR 0x0D, CHR '' ''])"

definition asciiTrim :: "string \<Rightarrow> string" where
  "asciiTrim s = rev (dropWhile asciiSpace (rev (dropWhile asciiSpace s)))"

definition asciiToLowerChar :: "char \<Rightarrow> char" where
  "asciiToLowerChar c =
     (case map_of (zip ''ABCDEFGHIJKLMNOPQRSTUVWXYZ'' ''abcdefghijklmnopqrstuvwxyz'') c of
        Some l \<Rightarrow> l
      | None \<Rightarrow> c)"

definition asciiToLowerCase :: "string \<Rightarrow> string" where
  "asciiToLowerCase s = map asciiToLowerChar s"

definition asciiSubstring :: "nat \<Rightarrow> nat \<Rightarrow> string \<Rightarrow> string" where
  "asciiSubstring i j s = take (j - i) (drop i s)"

fun strIncludes :: "string \<Rightarrow> string \<Rightarrow> bool" where
  "strIncludes [] sub = (sub = [])"
| "strIncludes (c # cs) sub = (take (length sub) (c # cs) = sub \<or> strIncludes cs sub)"

definition digitChar :: "nat \<Rightarrow> char" where
  "digitChar d = ''0123456789'' ! d"

fun showNat :: "nat \<Rightarrow> string" where
  "showNat n = (if n < 10 then [digitChar n] else showNat (n div 10) @ [digitChar (n mod 10)])"

declare showNat.simps [simp del]

section \<open>The page as in-page scripts see it\<close>

type_synonym buffer = string

record 'n rect =
  rectLeft :: 'n
  rectTop :: 'n
  rectWidth :: 'n
  rectHeight :: 'n

record 'n position =
  posX :: 'n
  posY :: 'n

record 'n element =
  tagName :: string
  textContent :: string
  boundingClientRect :: "'n rect"

datatype dom_node =
  DomNode (nodeTag: string) (nodeId: string) (nodeClass: string) (nodeText: string)
    (nodeChildren: "dom_node list")

datatype ready_state = Loading | Interactive | Complete

text \<open>
  \<open>querySelectorAll\<close> gives the matches of a selector in document order, or the message
  of the fault the engine raises for a selector it cannot parse. \<open>readyState\<close> is
  \<open>document.readyState\<close> when a script starts; \<open>readyStateChanges\<close> are the
  \<open>readystatechange\<close> events dispatched after that, each with the milliseconds from the
  start of the script to its dispatch and the ready-state the document has then.
\<close>

record 'n dom =
  querySelectorAll :: "string \<Rightarrow> string + 'n element list"
  documentTitle :: string
  locationHref :: string
  documentBody :: dom_node
  readyState :: ready_state
  readyStateChanges :: "(nat \<times> ready_state) list"

section \<open>The driver interface and its environment\<close>

datatype script =
    SetUserAgent string
  | GetLocationHref
  | GetDocumentTitle
  | ScrollIntoView string
  | GetElementPosition string
  | FocusElement string
  | ExtractTexts string
  | ExtractData "(string \<times> string) list"
  | WaitReadyState nat
  | GetDOMStructure
  | QueryElements string

datatype direction = DirUp | DirDown | DirLeft | DirRight

datatype 'n driver_call =
    CallInitialize bool
  | CallGoto string
  | CallClose
  | CallScreenshot
  | CallEvaluate script
  | CallGetPageDimensions
  | CallClickAt 'n 'n
  | CallType "string option"
  | CallPress string
  | CallScroll direction "nat option"

text \<open>
  The browser engine behind the driver interface is outside the program. It is a
  deterministic function of the calls made so far: whether the next call faults (and
  with which message), and the page, screenshot and viewport a successful call sees.
  The environment also holds the library functions of the host language that the
  program calls: the three string functions and the base-64 encoding of a buffer.
\<close>

record 'n env =
  fault :: "'n driver_call list \<Rightarrow> 'n driver_call \<Rightarrow> string option"
  pageAt :: "'n driver_call list \<Rightarrow> 'n dom"
  shotAt :: "'n driver_call list \<Rightarrow> buffer"
  sizeAt :: "'n driver_call list \<Rightarrow> 'n \<times> 'n"
  hasPage :: bool
  base64 :: "buffer \<Rightarrow> string"
  trim :: "string \<Rightarrow> string"
  toLowerCase :: "string \<Rightarrow> string"
  substring :: "nat \<Rightarrow> nat \<Rightarrow> string \<Rightarrow> string"

section \<open>Results and control flow\<close>

record 'd result =
  success :: bool
  error :: "string option"
  data :: "'d option"

definition succeed :: "'d result" where
  "succeed = \<lparr>success = True, error = None, data = None\<rparr>"

definition succeedWith :: "'d \<Rightarrow> 'd result" where
  "succeedWith d = \<lparr>success = True, error = None, data = Some d\<rparr>"

definition failWith :: "string \<Rightarrow> 'd result" where
  "failWith m = \<lparr>success = False, error = Some m, data = None\<rparr>"

text \<open>
  An awaited computation either returns a value or throws; \<open>Inl\<close> carries the message
  a handler reads (\<open>error instanceof Error ? error.message : String(error)\<close>).
\<close>

type_synonym ('a, 's) prog = "'s \<Rightarrow> (string + 'a) \<times> 's"

definition ret :: "'a \<Rightarrow> ('a, 's) prog" where
  "ret v s = (Inr v, s)"

definition andThen :: "('a, 's) prog \<Rightarrow> ('a \<Rightarrow> ('b, 's) prog) \<Rightarrow> ('b, 's) prog" where
  "andThen m f s = (case m s of (Inl e, s') \<Rightarrow> (Inl e, s') | (Inr v, s') \<Rightarrow> f v s')"

definition tryCatch :: "('a, 's) prog \<Rightarrow> (string \<Rightarrow> 'a) \<Rightarrow> 's \<Rightarrow> 'a \<times> 's" where
  "tryCatch m h s = (case m s of (Inl e, s') \<Rightarrow> (h e, s') | (Inr v, s') \<Rightarrow> (v, s'))"

section \<open>The action agent\<close>

datatype browser_kind = Playwright | Puppeteer

record agent_options =
  givenBrowser :: "browser_kind option"
  givenHeadless :: "bool option"
  givenTimeout :: "nat option"
  givenUserAgent :: "string option"

record 'n agent =
  optBrowser :: browser_kind
  optHeadless :: bool
  optTimeout :: nat
  optUserAgent :: "string option"
  isInitialized :: bool
  calls :: "'n driver_call list"
  waitedMs :: nat

text \<open>
  Beside the fields of the class, the record keeps what the agent has done to the world:
  \<open>calls\<close>, the driver methods invoked so far, oldest first, and \<open>waitedMs\<close>, the
  milliseconds spent awaiting promises that the page settles.
\<close>

definition newCrawlerAgent :: "agent_options \<Rightarrow> 'n agent" where
  "newCrawlerAgent opts =
     \<lparr>optBrowser = (case givenBrowser opts of Some b \<Rightarrow> b | None \<Rightarrow> Playwright),
      optHeadless = (case givenHeadless opts of Some h \<Rightarrow> h | None \<Rightarrow> False),
      optTimeout = (case givenTimeout opts of Some t \<Rightarrow> if t = 0 then 30000 else t | None \<Rightarrow> 30000),
      optUserAgent = givenUserAgent opts,
      isInitialized = False,
      calls = [],
      waitedMs = 0\<rparr>"

subsection \<open>Calls through the driver interface\<close>

definition invoke ::
  "'n env \<Rightarrow> 'n driver_call \<Rightarrow> ('n driver_call list \<Rightarrow> string + 'a) \<Rightarrow>
     ('a, ('n, 'm) agent_scheme) prog" where
  "invoke E c reply s =
     (let h = calls s; s' = s\<lparr>calls := h @ [c]\<rparr> in
      case fault E h c of
        Some m \<Rightarrow> (Inl m, s')
      | None \<Rightarrow> (reply h, s'))"

definition invoke_unit ::
  "'n env \<Rightarrow> 'n driver_call \<Rightarrow> (unit, ('n, 'm) agent_scheme) prog" where
  "invoke_unit E c = invoke E c (\<lambda>h. Inr ())"

definition evaluate ::
  "'n env \<Rightarrow> script \<Rightarrow> ('n dom \<Rightarrow> string + 'a) \<Rightarrow> ('a, ('n, 'm) agent_scheme) prog" where
  "evaluate E sc run = invoke E (CallEvaluate sc) (\<lambda>h. run (pageAt E h))"

text \<open>
  A script that returns a promise: \<open>evaluate\<close> returns when the promise settles, after
  the milliseconds the script's model gives with the value. An await on a promise that
  never settles does not return: \<open>None\<close>.
\<close>

definition evaluatePromise ::
  "'n env \<Rightarrow> script \<Rightarrow> ('n dom \<Rightarrow> (nat \<times> 'a) option) \<Rightarrow> ('n, 'm) agent_scheme \<Rightarrow>
     ((string + 'a) \<times> ('n, 'm) agent_scheme) option" where
  "evaluatePromise E sc run s =
     (let h = calls s; s' = s\<lparr>calls := h @ [CallEvaluate sc]\<rparr> in
      case fault E h (CallEvaluate sc) of
        Some m \<Rightarrow> Some (Inl m, s')
      | None \<Rightarrow>
          (case run (pageAt E h) of
             None \<Rightarrow> None
           | Some (ms, v) \<Rightarrow> Some (Inr v, s'\<lparr>waitedMs := waitedMs s' + ms\<rparr>)))"

subsection \<open>In-page scripts\<close>

definition querySelector :: "'n dom \<Rightarrow> string \<Rightarrow> string + 'n element option" where
  "querySelector d sel =
     (case querySelectorAll d sel of
        Inl e \<Rightarrow> Inl e
      | Inr [] \<Rightarrow> Inr None
      | Inr (el # els) \<Rightarrow> Inr (Some el))"

definition center :: "('n::{inverse,numeral}) rect \<Rightarrow> 'n position" where
  "center r = \<lparr>posX = rectLeft r + rectWidth r / 2, posY = rectTop r + rectHeight r / 2\<rparr>"

definition elementExistsScript :: "string \<Rightarrow> 'n dom \<Rightarrow> string + bool" where
  "elementExistsScript sel d =
     (case querySelector d sel of
        Inl e \<Rightarrow> Inl e
      | Inr None \<Rightarrow> Inr False
      | Inr (Some el) \<Rightarrow> Inr True)"

definition elementPositionScript ::
  "string \<Rightarrow> ('n::{inverse,numeral}) dom \<Rightarrow> string + 'n position option" where
  "elementPositionScript sel d =
     (case querySelector d sel of
        Inl e \<Rightarrow> Inl e
      | Inr None \<Rightarrow> Inr None
      | Inr (Some el) \<Rightarrow> Inr (Some (center (boundingClientRect el))))"

definition trimmedTexts :: "'n env \<Rightarrow> 'n element list \<Rightarrow> string list" where
  "trimmedTexts E els = filter (\<lambda>t. t \<noteq> []) (map (\<lambda>el. trim E (textContent el)) els)"

definition extractTextsScript :: "'n env \<Rightarrow> string \<Rightarrow> 'n dom \<Rightarrow> string + string list" where
  "extractTextsScript E sel d =
     (case querySelectorAll d sel of
        Inl e \<Rightarrow> Inl e
      | Inr els \<Rightarrow> Inr (trimmedTexts E els))"

datatype extracted = XNull | XText string | XList "string list"

definition resolveMatches :: "'n env \<Rightarrow> 'n element list \<Rightarrow> extracted" where
  "resolveMatches E els =
     (if length els = 0 then XNull
      else if length els = 1 then
        (let t = trim E (textContent (els ! 0)) in if t = [] then XNull else XText t)
      else XList (trimmedTexts E els))"

text \<open>
  \<open>result[key] = value\<close> on the plain object \<open>result\<close>: the key \<open>__proto__\<close> names the
  accessor of \<open>Object.prototype\<close>, so the assignment creates no property of \<open>result\<close>;
  every other key gets the value, in the place it had or else last. The spec is the list
  of the entries of the spec object, in the order \<open>Object.entries\<close> gives them.
\<close>

definition assignProperty ::
  "string \<Rightarrow> extracted \<Rightarrow> (string \<times> extracted) list \<Rightarrow> (string \<times> extracted) list" where
  "assignProperty key v obj = (if key = ''__proto__'' then obj else AList.update key v obj)"

fun extractDataLoop ::
  "'n env \<Rightarrow> 'n dom \<Rightarrow> (string \<times> string) list \<Rightarrow> (string \<times> extracted) list \<Rightarrow>
     string + (string \<times> extracted) list" where
  "extractDataLoop E d [] res = Inr res"
| "extractDataLoop E d ((key, sel) # rest) res =
     (case querySelectorAll d sel of
        Inl e \<Rightarrow> Inl e
      | Inr els \<Rightarrow> extractDataLoop E d rest (assignProperty key (resolveMatches E els) res))"

definition extractDataScript ::
  "'n env \<Rightarrow> (string \<times> string) list \<Rightarrow> 'n dom \<Rightarrow> string + (string \<times> extracted) list" where
  "extractDataScript E spec d = extractDataLoop E d spec []"

text \<open>
  The wait script. Its promise has the local flag \<open>resolved\<close>; \<open>settled\<close> is what the
  first call of \<open>resolve\<close> fixed: the time of the call, in milliseconds from the start of
  the script, and the value. \<open>checkReadyState\<close> runs once at the start and then as the
  listener of every \<open>readystatechange\<close> event; the timer's callback runs when the timer
  fires.
\<close>

record promise =
  resolved :: bool
  settled :: "(nat \<times> bool) option"

definition pending :: promise where
  "pending = \<lparr>resolved = False, settled = None\<rparr>"

definition resolve :: "nat \<Rightarrow> bool \<Rightarrow> promise \<Rightarrow> promise" where
  "resolve now v p = (case settled p of None \<Rightarrow> p\<lparr>settled := Some (now, v)\<rparr> | Some x \<Rightarrow> p)"

definition checkReadyState :: "nat \<Rightarrow> ready_state \<Rightarrow> promise \<Rightarrow> promise" where
  "checkReadyState now rs p =
     (if rs = Complete \<and> \<not> resolved p then resolve now True (p\<lparr>resolved := True\<rparr>) else p)"

definition timerCallback :: "nat \<Rightarrow> promise \<Rightarrow> promise" where
  "timerCallback now p =
     (if \<not> resolved p then resolve now False (p\<lparr>resolved := True\<rparr>) else p)"

text \<open>
  \<open>setTimeout\<close> takes its delay as a 32-bit signed integer (the number modulo \<open>2^32\<close>,
  read as signed) and takes a negative delay as zero.
\<close>

definition timerDelay :: "nat \<Rightarrow> nat" where
  "timerDelay ms = (if ms mod 2 ^ 32 < 2 ^ 31 then ms mod 2 ^ 32 else 0)"

datatype task = ReadyStateChange ready_state | TimerFires

fun runTask :: "nat \<times> task \<Rightarrow> promise \<Rightarrow> promise" where
  "runTask (now, ReadyStateChange rs) p = checkReadyState now rs p"
| "runTask (now, TimerFires) p = timerCallback now p"

text \<open>
  The script checks the ready-state, adds the listener and sets the timer with the delay
  \<open>timeout || 30000\<close>; then the event loop runs the events and the timer in the order of
  their times (an event dispatched in the millisecond the timer is due runs before the
  timer). The result is the time the promise took to settle and its value, or \<open>None\<close>
  when nothing has settled it.
\<close>

definition waitReadyScript :: "nat \<Rightarrow> 'n dom \<Rightarrow> (nat \<times> bool) option" where
  "waitReadyScript timeout d =
     (let p0 = checkReadyState 0 (readyState d) pending;
          events = map (\<lambda>(now, rs). (now, ReadyStateChange rs)) (readyStateChanges d);
          timer = (timerDelay (if timeout = 0 then 30000 else timeout), TimerFires)
      in settled (fold runTask (sort_key fst (events @ [timer])) p0))"

subsection \<open>Plans and action data\<close>

text \<open>
  A plan is an untyped object. \<open>executePlan\<close> reads \<open>plan.actions\<close>, and of each step
  \<open>type\<close> and \<open>params\<close> (\<open>element\<close>, \<open>text\<close>, \<open>selector\<close>, \<open>optional\<close>); a field that
  is absent is \<open>None\<close>. \<open>actionOptional\<close> is an \<open>optional\<close> field beside \<open>type\<close> and
  \<open>params\<close> on the step object itself, which the code never reads.
\<close>

record params =
  paramElement :: "string option"
  paramText :: "string option"
  paramSelector :: "string option"
  paramOptional :: "bool option"

record action =
  actionType :: string
  actionParams :: "params option"
  actionOptional :: "bool option"

record plan =
  planActions :: "action list option"

record 'n match =
  matchTagName :: string
  matchText :: string
  matchRect :: "'n rect"

datatype 'n descriptor = ServiceElement string | PageElement "'n match"

datatype 'n data =
    DataUrl string
  | DataTexts "string list"
  | DataExtracted "(string \<times> extracted) list"
  | DataScreenshot buffer
  | DataPlan plan
  | DataLocated "'n descriptor" "'n rect option" "'n position option"
  | DataClicked "'n descriptor"
  | DataInputted "string option" "'n descriptor"

subsection \<open>Actions of the action agent\<close>

definition notInitialized :: "'d result" where
  "notInitialized = failWith ''Browser not initialized''"

definition setInitialized :: "bool \<Rightarrow> (unit, ('n, 'm) agent_scheme) prog" where
  "setInitialized b s = (Inr (), s\<lparr>isInitialized := b\<rparr>)"

definition initialize ::
  "'n env \<Rightarrow> ('n, 'm) agent_scheme \<Rightarrow> 'n data result \<times> ('n, 'm) agent_scheme" where
  "initialize E s =
     tryCatch
       (andThen (invoke_unit E (CallInitialize (optHeadless s))) (\<lambda>_.
        andThen
          (case optUserAgent s of
             Some ua \<Rightarrow>
               if ua \<noteq> [] \<and> hasPage E then evaluate E (SetUserAgent ua) (\<lambda>d. Inr ())
               else ret ()
           | None \<Rightarrow> ret ()) (\<lambda>_.
        andThen (setInitialized True) (\<lambda>_.
        ret succeed))))
       (\<lambda>e. failWith (''Failed to initialize browser: '' @ e)) s"

definition getCurrentUrl :: "'n env \<Rightarrow> (string, ('n, 'm) agent_scheme) prog" where
  "getCurrentUrl E = evaluate E GetLocationHref (\<lambda>d. Inr (locationHref d))"

definition getPageTitle :: "'n env \<Rightarrow> (string, ('n, 'm) agent_scheme) prog" where
  "getPageTitle E = evaluate E GetDocumentTitle (\<lambda>d. Inr (documentTitle d))"

definition navigateTo ::
  "'n env \<Rightarrow> string \<Rightarrow> ('n, 'm) agent_scheme \<Rightarrow> 'n data result \<times> ('n, 'm) agent_scheme" where
  "navigateTo E url s =
     (if \<not> isInitialized s then (notInitialized, s)
      else
        tryCatch
          (andThen (invoke_unit E (CallGoto url)) (\<lambda>_.
           andThen (getCurrentUrl E) (\<lambda>u.
           ret (succeedWith (DataUrl u)))))
          (\<lambda>e. failWith (''Failed to navigate to '' @ url @ '': '' @ e)) s)"

definition clickElement ::
  "('n::{inverse,numeral}) env \<Rightarrow> string \<Rightarrow> ('n, 'm) agent_scheme \<Rightarrow>
     'n data result \<times> ('n, 'm) agent_scheme" where
  "clickElement E selector s =
     (if \<not> isInitialized s then (notInitialized, s)
      else
        tryCatch
          (andThen (evaluate E (ScrollIntoView selector) (elementExistsScript selector))
             (\<lambda>elementExists.
           if \<not> elementExists then
             ret (failWith (''Element with selector '' @ quoted selector @ '' not found''))
           else
             andThen (evaluate E (GetElementPosition selector) (elementPositionScript selector))
               (\<lambda>position.
             case position of
               None \<Rightarrow>
                 ret (failWith (''Could not determine position of element with selector '' @
                   quoted selector))
             | Some p \<Rightarrow>
                 andThen (invoke_unit E (CallClickAt (posX p) (posY p))) (\<lambda>_.
                 ret succeed))))
          (\<lambda>e. failWith (''Failed to click element with selector '' @ quoted selector @
             '': '' @ e)) s)"

definition typeText ::
  "'n env \<Rightarrow> string \<Rightarrow> string option \<Rightarrow> ('n, 'm) agent_scheme \<Rightarrow>
     'n data result \<times> ('n, 'm) agent_scheme" where
  "typeText E text selector s =
     (if \<not> isInitialized s then (notInitialized, s)
      else
        tryCatch
          (andThen
             (case selector of
                Some sel \<Rightarrow>
                  if sel \<noteq> [] then
                    andThen (evaluate E (FocusElement sel) (elementExistsScript sel))
                      (\<lambda>elementExists.
                    ret (if \<not> elementExists then
                           Some (failWith (''Element with selector '' @ quoted sel @ '' not found''))
                         else None))
                  else ret None
              | None \<Rightarrow> ret None) (\<lambda>returned.
           case returned of
             Some res \<Rightarrow> ret res
           | None \<Rightarrow>
               andThen (invoke_unit E (CallType (Some text))) (\<lambda>_.
               ret succeed)))
          (\<lambda>e. failWith (''Failed to type text: '' @ e)) s)"

definition pressKey ::
  "'n env \<Rightarrow> string \<Rightarrow> ('n, 'm) agent_scheme \<Rightarrow> 'n data result \<times> ('n, 'm) agent_scheme" where
  "pressKey E key s =
     (if \<not> isInitialized s then (notInitialized, s)
      else
        tryCatch
          (andThen (invoke_unit E (CallPress key)) (\<lambda>_. ret succeed))
          (\<lambda>e. failWith (''Failed to press key '' @ quoted key @ '': '' @ e)) s)"

definition directionName :: "direction \<Rightarrow> string" where
  "directionName dir =
     (case dir of DirUp \<Rightarrow> ''up'' | DirDown \<Rightarrow> ''down'' | DirLeft \<Rightarrow> ''left''
      | DirRight \<Rightarrow> ''right'')"

definition scroll ::
  "'n env \<Rightarrow> direction \<Rightarrow> nat option \<Rightarrow> ('n, 'm) agent_scheme \<Rightarrow>
     'n data result \<times> ('n, 'm) agent_scheme" where
  "scroll E dir distance s =
     (if \<not> isInitialized s then (notInitialized, s)
      else
        tryCatch
          (andThen (invoke_unit E (CallScroll dir distance)) (\<lambda>_. ret succeed))
          (\<lambda>e. failWith (''Failed to scroll '' @ directionName dir @ '': '' @ e)) s)"

definition extractText ::
  "'n env \<Rightarrow> string \<Rightarrow> ('n, 'm) agent_scheme \<Rightarrow> 'n data result \<times> ('n, 'm) agent_scheme" where
  "extractText E selector s =
     (if \<not> isInitialized s then (notInitialized, s)
      else
        tryCatch
          (andThen (evaluate E (ExtractTexts selector) (extractTextsScript E selector)) (\<lambda>texts.
           ret (succeedWith (DataTexts texts))))
          (\<lambda>e. failWith (''Failed to extract text from '' @ quoted selector @ '': '' @ e)) s)"

definition extractData ::
  "'n env \<Rightarrow> (string \<times> string) list \<Rightarrow> ('n, 'm) agent_scheme \<Rightarrow>
     'n data result \<times> ('n, 'm) agent_scheme" where
  "extractData E extractionSpec s =
     (if \<not> isInitialized s then (notInitialized, s)
      else
        tryCatch
          (andThen (evaluate E (ExtractData extractionSpec) (extractDataScript E extractionSpec))
             (\<lambda>res.
           ret (succeedWith (DataExtracted res))))
          (\<lambda>e. failWith (''Failed to extract data: '' @ e)) s)"

definition takeScreenshot ::
  "'n env \<Rightarrow> ('n, 'm) agent_scheme \<Rightarrow> 'n data result \<times> ('n, 'm) agent_scheme" where
  "takeScreenshot E s =
     (if \<not> isInitialized s then (notInitialized, s)
      else
        tryCatch
          (andThen (invoke E CallScreenshot (\<lambda>h. Inr (shotAt E h))) (\<lambda>screenshot.
           ret (succeedWith (DataScreenshot screenshot))))
          (\<lambda>e. failWith (''Failed to take screenshot: '' @ e)) s)"

text \<open>
  \<open>timeout || this.options.timeout\<close>: a timeout that is absent or \<open>0\<close> gives way to the
  configured one. \<open>waitForNavigation\<close> returns \<open>None\<close> when its await does not return; a
  fault of the driver call is caught and becomes a failed result.
\<close>

definition waitBound :: "nat option \<Rightarrow> nat \<Rightarrow> nat" where
  "waitBound timeout configured =
     (case timeout of Some t \<Rightarrow> if t = 0 then configured else t | None \<Rightarrow> configured)"

definition waitForNavigation ::
  "'n env \<Rightarrow> nat option \<Rightarrow> ('n, 'm) agent_scheme \<Rightarrow>
     ('n data result \<times> ('n, 'm) agent_scheme) option" where
  "waitForNavigation E timeout s =
     (if \<not> isInitialized s then Some (notInitialized, s)
      else
        (case evaluatePromise E (WaitReadyState (waitBound timeout (optTimeout s)))
                (waitReadyScript (waitBound timeout (optTimeout s))) s of
           None \<Rightarrow> None
         | Some (Inl e, s1) \<Rightarrow> Some (failWith (''Failed to wait for navigation: '' @ e), s1)
         | Some (Inr settledWith, s1) \<Rightarrow> Some (succeed, s1)))"

definition close :: "'n env \<Rightarrow> (unit, ('n, 'm) agent_scheme) prog" where
  "close E s =
     (if isInitialized s then
        andThen (invoke_unit E CallClose) (\<lambda>_. setInitialized False) s
      else ret () s)"

section \<open>The AI-enhanced agent\<close>

record ai_options = agent_options +
  givenOutputDir :: "string option"
  givenUseAutonomousPlanning :: "bool option"

record 'n ai_agent = "'n agent" +
  outputDir :: string
  useAutonomousPlanning :: bool
  screenshotCounter :: nat

text \<open>
  The file system: the paths that exist and the files written, in order. What a single
  call finds outside the program (the clock, whether \<open>mkdirSync\<close> and \<open>writeFileSync\<close>
  throw) is its \<open>io\<close> argument.
\<close>

record filesystem =
  existingPaths :: "string list"
  writtenFiles :: "(string \<times> buffer) list"

record io =
  dateNow :: nat
  mkdirFails :: bool
  writeFails :: bool

definition ensureOutputDirectory :: "io \<Rightarrow> string \<Rightarrow> filesystem \<Rightarrow> filesystem" where
  "ensureOutputDirectory w dir f =
     (if dir \<notin> set (existingPaths f) then
        (if mkdirFails w then f else f\<lparr>existingPaths := existingPaths f @ [dir]\<rparr>)
      else f)"

definition newAIEnhancedAgent ::
  "io \<Rightarrow> ai_options \<Rightarrow> filesystem \<Rightarrow> 'n ai_agent \<times> filesystem" where
  "newAIEnhancedAgent w opts f =
     (let dir = (case givenOutputDir opts of Some d \<Rightarrow> d | None \<Rightarrow> ''./crawler-ai-output'');
          base = newCrawlerAgent (agent_options.truncate opts) :: 'n agent
      in (agent.extend base
            (ai_agent.fields dir
               (case givenUseAutonomousPlanning opts of Some b \<Rightarrow> b | None \<Rightarrow> True) 0),
          if dir \<noteq> [] then ensureOutputDirectory w dir f else f))"

definition initializeAI ::
  "'n env \<Rightarrow> ('n, 'm) ai_agent_scheme \<Rightarrow> 'n data result \<times> ('n, 'm) ai_agent_scheme" where
  "initializeAI E s =
     (case initialize E s of (res, s1) \<Rightarrow>
        if \<not> success res then (res, s1)
        else (succeed, s1\<lparr>screenshotCounter := 0\<rparr>))"

subsection \<open>Page context\<close>

datatype tree =
  Tree (treeTag: string) (treeId: "string option") (treeClassName: "string option")
    (treeText: "string option") (treeChildren: "tree list option")

definition orUndefined :: "string \<Rightarrow> string option" where
  "orUndefined s = (if s = [] then None else Some s)"

fun getBasicDOMStructure :: "'n env \<Rightarrow> dom_node \<Rightarrow> nat \<Rightarrow> nat \<Rightarrow> tree option" where
  "getBasicDOMStructure E (DomNode tag ident cls txt kids) depth maxDepth =
     (if depth > maxDepth then None
      else
        (let children =
               concat (map (\<lambda>child.
                 case getBasicDOMStructure E child (depth + 1) maxDepth of
                   None \<Rightarrow> []
                 | Some t \<Rightarrow> [t]) kids)
         in Some (Tree (toLowerCase E tag) (orUndefined ident) (orUndefined cls)
              (orUndefined (substring E 0 100 (trim E txt)))
              (if length children > 0 then Some children else None))))"

declare getBasicDOMStructure.simps [simp del]

record 'n page_context =
  contextScreenshot :: string
  contextSize :: "'n \<times> 'n"
  contextTree :: "tree option"
  contextTitle :: string
  contextUrl :: string

definition fromValue :: "string + 'a \<Rightarrow> ('a, 's) prog" where
  "fromValue v s = (v, s)"

definition getPageContext ::
  "'n env \<Rightarrow> ('n page_context, ('n, 'm) agent_scheme) prog" where
  "getPageContext E =
     andThen
       (\<lambda>s. case takeScreenshot E s of (screenshotResult, s1) \<Rightarrow>
          if \<not> success screenshotResult then
            (Inl (''Failed to take screenshot: '' @
               (case error screenshotResult of Some e \<Rightarrow> e | None \<Rightarrow> ''undefined'')), s1)
          else
            (case data screenshotResult of
               Some (DataScreenshot b) \<Rightarrow> (Inr b, s1)
             | _ \<Rightarrow> (Inl ''Cannot read properties of undefined (reading 'screenshot')'', s1)))
       (\<lambda>screenshotData.
     andThen (invoke E CallGetPageDimensions (\<lambda>h. Inr (sizeAt E h))) (\<lambda>dimensions.
     andThen (getPageTitle E) (\<lambda>title.
     andThen (getCurrentUrl E) (\<lambda>url.
     andThen
       (evaluate E GetDOMStructure (\<lambda>d. Inr (getBasicDOMStructure E (documentBody d) 0 3)))
       (\<lambda>documentStructure.
     ret \<lparr>contextScreenshot = ''data:image/jpeg;base64,'' @ base64 E screenshotData,
          contextSize = dimensions,
          contextTree = documentStructure,
          contextTitle = title,
          contextUrl = url\<rparr>)))))"

subsection \<open>Screenshots on disk\<close>

definition screenshotFilename :: "nat \<Rightarrow> nat \<Rightarrow> string" where
  "screenshotFilename ms counter =
     ''screenshot-'' @ showNat ms @ ''-'' @ showNat counter @ ''.jpg''"

text \<open>
  \<open>join\<close> is the path library's \<open>path.join\<close> on two segments. The counter is
  incremented while the file name is built, after the directory is in place and before
  the file is written.
\<close>

definition saveScreenshot ::
  "(string \<Rightarrow> string \<Rightarrow> string) \<Rightarrow> io \<Rightarrow> buffer \<Rightarrow>
     ('n, 'm) ai_agent_scheme \<times> filesystem \<Rightarrow> string \<times> ('n, 'm) ai_agent_scheme \<times> filesystem" where
  "saveScreenshot join w screenshotData st =
     (case st of (s, f) \<Rightarrow>
        if outputDir s = [] then ([], s, f)
        else
          (let screenshotsDir = join (outputDir s) ''screenshots'' in
           if screenshotsDir \<notin> set (existingPaths f) \<and> mkdirFails w then ([], s, f)
           else
             (let f1 = (if screenshotsDir \<notin> set (existingPaths f)
                        then f\<lparr>existingPaths := existingPaths f @ [screenshotsDir]\<rparr> else f);
                  s1 = s\<lparr>screenshotCounter := screenshotCounter s + 1\<rparr>;
                  filename = screenshotFilename (dateNow w) (screenshotCounter s1);
                  filePath = join screenshotsDir filename
              in if writeFails w then ([], s1, f1)
                 else (filePath, s1, f1\<lparr>writtenFiles := writtenFiles f1 @ [(filePath, screenshotData)]\<rparr>))))"

text \<open>A run of screenshot writes by one agent, with no other operation in between.\<close>

fun saveScreenshots ::
  "(string \<Rightarrow> string \<Rightarrow> string) \<Rightarrow> (io \<times> buffer) list \<Rightarrow>
     ('n, 'm) ai_agent_scheme \<times> filesystem \<Rightarrow> ('n, 'm) ai_agent_scheme \<times> filesystem" where
  "saveScreenshots join [] st = st"
| "saveScreenshots join ((w, b) # rest) st =
     saveScreenshots join rest (snd (saveScreenshot join w b st))"

subsection \<open>The reasoning service\<close>

text \<open>
  The two capabilities of the reasoning service are feature-detected: \<open>None\<close> when the
  function is not there. A call either returns or throws (\<open>Inl\<close>). A locate reply has
  \<open>parseResult.elements\<close> (\<open>None\<close> when \<open>parseResult\<close> or \<open>elements\<close> is missing) and an
  optional \<open>rect\<close>.
\<close>

record 'n locate_reply =
  replyElements :: "string list option"
  replyRect :: "'n rect option"

record 'n capabilities =
  planCapability :: "(string \<Rightarrow> 'n page_context \<Rightarrow> string + plan) option"
  locateCapability :: "('n page_context \<Rightarrow> string option \<Rightarrow> string + 'n locate_reply) option"

subsection \<open>Planning\<close>

definition mockPlan :: plan where
  "mockPlan =
     \<lparr>planActions = Some
        [\<lparr>actionType = ''extract'',
          actionParams = Some \<lparr>paramElement = None, paramText = None,
            paramSelector = Some ''h1, h2, .content, article'', paramOptional = None\<rparr>,
          actionOptional = None\<rparr>]\<rparr>"

definition createPlanForPage ::
  "'n env \<Rightarrow> 'n capabilities \<Rightarrow> string \<Rightarrow> ('n, 'm) agent_scheme \<Rightarrow>
     'n data result \<times> ('n, 'm) agent_scheme" where
  "createPlanForPage E caps instruction =
     tryCatch
       (andThen (getPageContext E) (\<lambda>ctx.
        case planCapability caps of
          Some planFn \<Rightarrow>
            andThen (fromValue (planFn instruction ctx)) (\<lambda>planningResult.
            ret (succeedWith (DataPlan planningResult)))
        | None \<Rightarrow> ret (succeedWith (DataPlan mockPlan))))
       (\<lambda>e. failWith (''Failed to create plan: '' @ e))"

definition navigateToAI ::
  "'n env \<Rightarrow> 'n capabilities \<Rightarrow> string \<Rightarrow> ('n, 'm) ai_agent_scheme \<Rightarrow>
     'n data result \<times> ('n, 'm) ai_agent_scheme" where
  "navigateToAI E caps url s =
     (case navigateTo E url s of (res, s1) \<Rightarrow>
        if \<not> success res then (res, s1)
        else if useAutonomousPlanning s1 then
          (case createPlanForPage E caps
                  ''Analyze this page and find the most important information'' s1 of
             (planned, s2) \<Rightarrow> (res, s2))
        else (res, s1))"

subsection \<open>Element location\<close>

definition describe :: "string option \<Rightarrow> string" where
  "describe description = (case description of Some d \<Rightarrow> d | None \<Rightarrow> ''undefined'')"

text \<open>
  The heuristic selector policy. A description that is not a string has no
  \<open>toLowerCase\<close>: the call throws.
\<close>

definition heuristicSelector :: "'n env \<Rightarrow> string option \<Rightarrow> string + string" where
  "heuristicSelector E description =
     (case description of
        None \<Rightarrow> Inl ''Cannot read properties of undefined (reading 'toLowerCase')''
      | Some d \<Rightarrow>
          Inr (if strIncludes (toLowerCase E d) ''button'' then
                 ''button, [role='' @ quoted ''button'' @ ''], .btn, a.button''
               else if strIncludes (toLowerCase E d) ''input'' \<or>
                       strIncludes (toLowerCase E d) ''text'' \<or>
                       strIncludes (toLowerCase E d) ''field'' then
                 ''input, textarea''
               else if strIncludes (toLowerCase E d) ''link'' then ''a''
               else ''*:contains('' @ quoted d @ '')''))"

definition queryElementsScript ::
  "'n env \<Rightarrow> string \<Rightarrow> 'n dom \<Rightarrow> string + 'n match list" where
  "queryElementsScript E sel d =
     (case querySelectorAll d sel of
        Inl e \<Rightarrow> Inl e
      | Inr els \<Rightarrow>
          Inr (map (\<lambda>el. \<lparr>matchTagName = toLowerCase E (tagName el),
                          matchText = trim E (textContent el),
                          matchRect = boundingClientRect el\<rparr>) els))"

definition locateElement ::
  "('n::{inverse,numeral}) env \<Rightarrow> 'n capabilities \<Rightarrow> string option \<Rightarrow>
     ('n, 'm) agent_scheme \<Rightarrow> 'n data result \<times> ('n, 'm) agent_scheme" where
  "locateElement E caps description =
     tryCatch
       (andThen (getPageContext E) (\<lambda>ctx.
        case locateCapability caps of
          Some locateFn \<Rightarrow>
            andThen (fromValue (locateFn ctx description)) (\<lambda>locateResult.
            case replyElements locateResult of
              None \<Rightarrow> ret (failWith (''Could not find element: '' @ describe description))
            | Some [] \<Rightarrow> ret (failWith (''Could not find element: '' @ describe description))
            | Some (el # els) \<Rightarrow>
                (case replyRect locateResult of
                   Some r \<Rightarrow>
                     ret (succeedWith (DataLocated (ServiceElement el) (Some r) (Some (center r))))
                 | None \<Rightarrow> ret (succeedWith (DataLocated (ServiceElement el) None None))))
        | None \<Rightarrow>
            andThen (fromValue (heuristicSelector E description)) (\<lambda>selector.
            andThen (evaluate E (QueryElements selector) (queryElementsScript E selector))
              (\<lambda>elements.
            case elements of
              [] \<Rightarrow> ret (failWith (''Could not find element: '' @ describe description))
            | el # els \<Rightarrow>
                ret (succeedWith (DataLocated (PageElement el) (Some (matchRect el))
                  (Some (center (matchRect el)))))))))
       (\<lambda>e. failWith (''Failed to locate element '' @ quoted (describe description) @
          '': '' @ e))"

definition clickOnElement ::
  "('n::{inverse,numeral}) env \<Rightarrow> 'n capabilities \<Rightarrow> string option \<Rightarrow>
     ('n, 'm) agent_scheme \<Rightarrow> 'n data result \<times> ('n, 'm) agent_scheme" where
  "clickOnElement E caps description =
     tryCatch
       (\<lambda>s. case locateElement E caps description s of (locateResult, s1) \<Rightarrow>
          if \<not> success locateResult then (Inr locateResult, s1)
          else
            (case data locateResult of
               Some (DataLocated el r None) \<Rightarrow>
                 (Inr (failWith (''Located element '' @ quoted (describe description) @
                    '' but could not determine position for clicking'')), s1)
             | Some (DataLocated el r (Some p)) \<Rightarrow>
                 andThen (invoke_unit E (CallClickAt (posX p) (posY p))) (\<lambda>_.
                 ret (succeedWith (DataClicked el))) s1
             | _ \<Rightarrow> (Inl ''Cannot destructure property 'position' of 'locateResult.data' as it is undefined.'', s1)))
       (\<lambda>e. failWith (''Failed to click on element '' @ quoted (describe description) @
          '': '' @ e))"

definition inputTextIntoElement ::
  "('n::{inverse,numeral}) env \<Rightarrow> 'n capabilities \<Rightarrow> string option \<Rightarrow> string option \<Rightarrow>
     ('n, 'm) agent_scheme \<Rightarrow> 'n data result \<times> ('n, 'm) agent_scheme" where
  "inputTextIntoElement E caps description text =
     tryCatch
       (\<lambda>s. case locateElement E caps description s of (locateResult, s1) \<Rightarrow>
          if \<not> success locateResult then (Inr locateResult, s1)
          else
            (case data locateResult of
               Some (DataLocated el r None) \<Rightarrow>
                 (Inr (failWith (''Located element '' @ quoted (describe description) @
                    '' but could not determine position for clicking'')), s1)
             | Some (DataLocated el r (Some p)) \<Rightarrow>
                 andThen (invoke_unit E (CallClickAt (posX p) (posY p))) (\<lambda>_.
                 andThen (invoke_unit E (CallType text)) (\<lambda>_.
                 ret (succeedWith (DataInputted text el)))) s1
             | _ \<Rightarrow> (Inl ''Cannot destructure property 'position' of 'locateResult.data' as it is undefined.'', s1)))
       (\<lambda>e. failWith (''Failed to input text into element '' @ quoted (describe description) @
          '': '' @ e))"

subsection \<open>Plan execution\<close>

record 'n step_result =
  stepType :: string
  stepSuccess :: bool
  stepData :: "'n data option"
  stepError :: "string option"

definition stepOf :: "string \<Rightarrow> 'n data result \<Rightarrow> 'n step_result" where
  "stepOf ty res =
     \<lparr>stepType = ty, stepSuccess = success res, stepData = data res, stepError = error res\<rparr>"

definition noParams :: params where
  "noParams = \<lparr>paramElement = None, paramText = None, paramSelector = None, paramOptional = None\<rparr>"

definition paramsOf :: "action \<Rightarrow> params" where
  "paramsOf a = (case actionParams a of Some p \<Rightarrow> p | None \<Rightarrow> noParams)"

definition truthy :: "bool option \<Rightarrow> bool" where
  "truthy v = (case v of Some b \<Rightarrow> b | None \<Rightarrow> False)"

text \<open>The body of the \<open>switch\<close>: the step result that one action pushes.\<close>

definition performAction ::
  "('n::{inverse,numeral}) env \<Rightarrow> 'n capabilities \<Rightarrow> action \<Rightarrow>
     ('n, 'm) agent_scheme \<Rightarrow> 'n step_result \<times> ('n, 'm) agent_scheme" where
  "performAction E caps a s =
     (if actionType a = ''click'' then
        (case clickOnElement E caps (paramElement (paramsOf a)) s of
           (clickResult, s1) \<Rightarrow> (stepOf ''click'' clickResult, s1))
      else if actionType a = ''input'' then
        (case inputTextIntoElement E caps (paramElement (paramsOf a)) (paramText (paramsOf a)) s of
           (inputResult, s1) \<Rightarrow> (stepOf ''input'' inputResult, s1))
      else if actionType a = ''extract'' then
        (case extractText E
                (case paramSelector (paramsOf a) of
                   Some sel \<Rightarrow> if sel = [] then ''body'' else sel
                 | None \<Rightarrow> ''body'') s of
           (extractResult, s1) \<Rightarrow> (stepOf ''extract'' extractResult, s1))
      else
        (\<lparr>stepType = actionType a, stepSuccess = False, stepData = None,
          stepError = Some (''Unsupported action type: '' @ actionType a)\<rparr>, s))"

text \<open>
  The \<open>for\<close> loop over the actions, with the results pushed so far. It leaves the loop
  after a step whose result failed when \<open>actionParams.optional\<close> is not truthy.
\<close>

fun executeActions ::
  "('n::{inverse,numeral}) env \<Rightarrow> 'n capabilities \<Rightarrow> action list \<Rightarrow> 'n step_result list \<Rightarrow>
     ('n, 'm) agent_scheme \<Rightarrow> 'n step_result list \<times> ('n, 'm) agent_scheme" where
  "executeActions E caps [] results s = (results, s)"
| "executeActions E caps (a # rest) results s =
     (case performAction E caps a s of (r, s1) \<Rightarrow>
        if \<not> stepSuccess (last (results @ [r])) \<and> \<not> truthy (paramOptional (paramsOf a))
        then (results @ [r], s1)
        else executeActions E caps rest (results @ [r]) s1)"

definition executePlan ::
  "('n::{inverse,numeral}) env \<Rightarrow> 'n capabilities \<Rightarrow> plan \<Rightarrow> ('n, 'm) agent_scheme \<Rightarrow>
     'n step_result list result \<times> ('n, 'm) agent_scheme" where
  "executePlan E caps p s =
     (case executeActions E caps (case planActions p of Some acts \<Rightarrow> acts | None \<Rightarrow> []) [] s of
        (results, s1) \<Rightarrow>
          (\<lparr>success = list_all stepSuccess results, error = None, data = Some results\<rparr>, s1))"

definition closeAI :: "'n env \<Rightarrow> (unit, ('n, 'm) ai_agent_scheme) prog" where
  "closeAI E = close E"

section \<open>The plan as the sequence of its steps\<close>

text \<open>
  For comparison with \<open>executePlan\<close>: every step of a plan run in turn, each on the
  agent its predecessor left, with the result it pushes and the agent after it; whether
  a step's result stops the execution; and the number of steps attempted, which counts
  up to and including the first step that stops it.
\<close>

fun stepOutcomes ::
  "('n::{inverse,numeral}) env \<Rightarrow> 'n capabilities \<Rightarrow> action list \<Rightarrow> ('n, 'm) agent_scheme \<Rightarrow>
     ('n step_result \<times> ('n, 'm) agent_scheme) list" where
  "stepOutcomes E caps [] s = []"
| "stepOutcomes E caps (a # rest) s =
     (case performAction E caps a s of (r, s1) \<Rightarrow> (r, s1) # stepOutcomes E caps rest s1)"

definition stopsExecution :: "action \<Rightarrow> 'n step_result \<Rightarrow> bool" where
  "stopsExecution a r = (\<not> stepSuccess r \<and> \<not> truthy (paramOptional (paramsOf a)))"

fun attemptedSteps :: "action list \<Rightarrow> 'n step_result list \<Rightarrow> nat" where
  "attemptedSteps (a # acts) (r # rs) =
     (if stopsExecution a r then 1 else Suc (attemptedSteps acts rs))"
| "attemptedSteps acts rs = 0"

section \<open>A concrete page, engine and agents\<close>

text \<open>
  A page with one heading, three list items (one of them blank), one blank paragraph, one
  button and one text input, whose ready-state goes from loading to interactive and
  never reaches complete, on an engine that never faults and a host library for ASCII
  text; the same engine with a screenshot call that always faults, or with a start that
  faults; and agents before and after \<open>initialize\<close>.
\<close>

definition demoRect :: "rat rect" where
  "demoRect = \<lparr>rectLeft = 10, rectTop = 20, rectWidth = 100, rectHeight = 30\<rparr>"

definition demoElement :: "string \<Rightarrow> string \<Rightarrow> rat element" where
  "demoElement tag txt = \<lparr>tagName = tag, textContent = txt, boundingClientRect = demoRect\<rparr>"

definition demoMatches :: "string \<Rightarrow> string + rat element list" where
  "demoMatches sel =
     (if sel = ''h1'' then Inr [demoElement ''H1'' '' Welcome '']
      else if sel = ''li'' then
        Inr [demoElement ''LI'' ''one'', demoElement ''LI'' ''  '', demoElement ''LI'' '' three'']
      else if sel = ''p.blank'' then Inr [demoElement ''P'' ''   '']
      else if sel = ''button, [role='' @ quoted ''button'' @ ''], .btn, a.button'' then
        Inr [demoElement ''BUTTON'' ''Search'']
      else if sel = ''input, textarea'' then Inr [demoElement ''INPUT'' '''']
      else Inr [])"

definition demoPage :: "rat dom" where
  "demoPage =
     \<lparr>querySelectorAll = demoMatches,
      documentTitle = ''Demo'',
      locationHref = ''http://localhost/demo'',
      documentBody = DomNode ''BODY'' '''' '''' ''Welcome'' [DomNode ''H1'' ''top'' '''' '' Welcome '' []],
      readyState = Loading,
      readyStateChanges = [(5, Interactive)]\<rparr>"

definition demoEnv :: "rat env" where
  "demoEnv =
     \<lparr>fault = (\<lambda>h c. None),
      pageAt = (\<lambda>h. demoPage),
      shotAt = (\<lambda>h. ''JPEG''),
      sizeAt = (\<lambda>h. (1280, 800)),
      hasPage = True,
      base64 = (\<lambda>b. b),
      trim = asciiTrim,
      toLowerCase = asciiToLowerCase,
      substring = asciiSubstring\<rparr>"

definition noCameraEnv :: "rat env" where
  "noCameraEnv = demoEnv\<lparr>fault := (\<lambda>h c. if c = CallScreenshot then Some ''Target closed'' else None)\<rparr>"

definition noStartEnv :: "rat env" where
  "noStartEnv = demoEnv\<lparr>fault := (\<lambda>h c. if c = CallInitialize False then Some ''spawn ENOENT'' else None)\<rparr>"

definition noCapabilities :: "rat capabilities" where
  "noCapabilities = \<lparr>planCapability = None, locateCapability = None\<rparr>"

definition freshAgent :: "rat agent" where
  "freshAgent =
     newCrawlerAgent
       \<lparr>givenBrowser = None, givenHeadless = None, givenTimeout = None, givenUserAgent = None\<rparr>"

definition readyAgent :: "rat agent" where
  "readyAgent = freshAgent\<lparr>isInitialized := True, calls := []\<rparr>"

definition demoAIAgent :: "rat ai_agent" where
  "demoAIAgent =
     agent.extend readyAgent (ai_agent.fields ''out'' False 0)"

definition demoJoin :: "string \<Rightarrow> string \<Rightarrow> string" where
  "demoJoin a b = a @ ''/'' @ b"

definition emptyDisk :: filesystem where
  "emptyDisk = \<lparr>existingPaths = [], writtenFiles = []\<rparr>"

definition demoIO :: "nat \<Rightarrow> io" where
  "demoIO ms = \<lparr>dateNow = ms, mkdirFails = False, writeFails = False\<rparr>"

definition demoPlanner :: "rat capabilities" where
  "demoPlanner =
     \<lparr>planCapability = Some (\<lambda>instruction ctx. Inr mockPlan), locateCapability = None\<rparr>"

definition demoContext :: "rat page_context" where
  "demoContext =
     \<lparr>contextScreenshot = ''data:image/jpeg;base64,JPEG'',
      contextSize = (1280, 800),
      contextTree = Some (Tree ''body'' None None (Some ''Welcome'')
        (Some [Tree ''h1'' (Some ''top'') None (Some ''Welcome'') None])),
      contextTitle = ''Demo'',
      contextUrl = ''http://localhost/demo''\<rparr>"

definition contextCalls :: "rat driver_call list" where
  "contextCalls =
     [CallScreenshot, CallGetPageDimensions, CallEvaluate GetDocumentTitle,
      CallEvaluate GetLocationHref, CallEvaluate GetDOMStructure]"

definition hoverThenExtract :: plan where
  "hoverThenExtract =
     \<lparr>planActions = Some
        [\<lparr>actionType = ''hover'',
          actionParams = Some (noParams\<lparr>paramOptional := Some True\<rparr>),
          actionOptional = None\<rparr>,
         \<lparr>actionType = ''extract'',
          actionParams = Some (noParams\<lparr>paramSelector := Some ''h1''\<rparr>),
          actionOptional = None\<rparr>]\<rparr>"

definition clickMissing :: action where
  "clickMissing =
     \<lparr>actionType = ''click'',
      actionParams = Some (noParams\<lparr>paramElement := Some ''missing''\<rparr>),
      actionOptional = None\<rparr>"

definition extractBody :: action where
  "extractBody =
     \<lparr>actionType = ''extract'',
      actionParams = Some (noParams\<lparr>paramSelector := Some ''body''\<rparr>),
      actionOptional = None\<rparr>"

definition clickThenExtract :: plan where
  "clickThenExtract = \<lparr>planActions = Some [clickMissing, extractBody]\<rparr>"

definition blankSpec :: "(string \<times> string) list" where
  "blankSpec = [(''note'', ''p.blank''), (''items'', ''li'')]"

definition demoSpec :: "(string \<times> string) list" where
  "demoSpec = [(''title'', ''h1''), (''items'', ''li''), (''rows'', ''tr'')]"

definition demoMatched :: "string \<Rightarrow> rat element list" where
  "demoMatched sel = (case demoMatches sel of Inr els \<Rightarrow> els | Inl e \<Rightarrow> [])"

definition afterFirstShot :: "rat ai_agent \<times> filesystem" where
  "afterFirstShot = snd (saveScreenshot demoJoin (demoIO 1000) ''A'' (demoAIAgent, emptyDisk))"

definition reinitialized :: "rat ai_agent" where
  "reinitialized = snd (initializeAI demoEnv (fst afterFirstShot))"

section \<open>Properties\<close>

lemmas flow =
  andThen_def tryCatch_def ret_def fromValue_def invoke_def invoke_unit_def
  evaluate_def setInitialized_def

subsection \<open>The concrete page and agents, evaluated\<close>

lemma demoEnv_simps:
  "fault demoEnv h c = None" "pageAt demoEnv h = demoPage" "shotAt demoEnv h = ''JPEG''"
  "querySelectorAll demoPage = demoMatches" "readyState demoPage = Loading"
  "readyStateChanges demoPage = [(5, Interactive)]"
  "trim demoEnv = asciiTrim" "toLowerCase demoEnv = asciiToLowerCase"
  "substring demoEnv = asciiSubstring"
  by (simp_all add: demoEnv_def demoPage_def)

lemma readyAgent_simps:
  "isInitialized readyAgent" "calls readyAgent = []" "optTimeout readyAgent = 30000"
  "waitedMs readyAgent = 0"
  by (simp_all add: readyAgent_def freshAgent_def newCrawlerAgent_def)

lemma freshAgent_simps:
  "\<not> isInitialized freshAgent" "calls freshAgent = []" "optUserAgent freshAgent = None"
  "optHeadless freshAgent = False"
  by (simp_all add: freshAgent_def newCrawlerAgent_def)

lemma demo_context:
  "getPageContext demoEnv readyAgent = (Inr demoContext, readyAgent\<lparr>calls := contextCalls\<rparr>)"
  by (simp add: getPageContext_def takeScreenshot_def getPageTitle_def getCurrentUrl_def flow
      readyAgent_def freshAgent_def newCrawlerAgent_def demoEnv_def demoPage_def
      succeedWith_def demoContext_def contextCalls_def getBasicDOMStructure.simps
      asciiToLowerCase_def asciiToLowerChar_def asciiSubstring_def orUndefined_def asciiTrim_def
      asciiSpace_def)

lemma demo_click_missing:
  "performAction demoEnv noCapabilities clickMissing readyAgent =
   (\<lparr>stepType = ''click'', stepSuccess = False, stepData = None,
     stepError = Some ''Could not find element: missing''\<rparr>,
    readyAgent\<lparr>calls := contextCalls @
      [CallEvaluate (QueryElements (''*:contains('' @ quoted ''missing'' @ '')''))]\<rparr>)"
  by (simp add: clickMissing_def performAction_def paramsOf_def noParams_def clickOnElement_def
      locateElement_def flow demo_context noCapabilities_def heuristicSelector_def
      asciiToLowerCase_def asciiToLowerChar_def queryElementsScript_def demoEnv_simps
      demoMatches_def
      quoted_def failWith_def describe_def stepOf_def)

lemma demo_extract_body:
  "isInitialized s \<Longrightarrow>
   performAction demoEnv noCapabilities extractBody s =
   (\<lparr>stepType = ''extract'', stepSuccess = True, stepData = Some (DataTexts []),
     stepError = None\<rparr>,
    s\<lparr>calls := calls s @ [CallEvaluate (ExtractTexts ''body'')]\<rparr>)"
  by (simp add: extractBody_def performAction_def paramsOf_def noParams_def extractText_def
      flow extractTextsScript_def demoEnv_simps demoMatches_def quoted_def
      succeedWith_def stepOf_def trimmedTexts_def)

lemma demo_click_not_optional: "\<not> truthy (paramOptional (paramsOf clickMissing))"
  by (simp add: clickMissing_def paramsOf_def noParams_def truthy_def)

subsection \<open>Actions on an agent that is not initialized\<close>

text \<open>
  C1. Each of the nine actions of the action agent (\<open>navigateTo\<close>, \<open>clickElement\<close>,
  \<open>typeText\<close>, \<open>pressKey\<close>, \<open>scroll\<close>, \<open>extractText\<close>, \<open>extractData\<close>,
  \<open>takeScreenshot\<close>, \<open>waitForNavigation\<close>), called while \<open>isInitialized\<close> is false,
  returns exactly \<open>{success: false, error: "Browser not initialized"}\<close> and leaves the
  agent as it was; in particular the log of driver calls is unchanged, so no driver
  method is invoked.
\<close>

theorem uninitialized_actions_rejected:
  assumes "\<not> isInitialized s"
  shows
    "navigateTo E url s =
       (\<lparr>success = False, error = Some ''Browser not initialized'', data = None\<rparr>, s)
     \<and> clickElement E selector s =
       (\<lparr>success = False, error = Some ''Browser not initialized'', data = None\<rparr>, s)
     \<and> typeText E txt optSelector s =
       (\<lparr>success = False, error = Some ''Browser not initialized'', data = None\<rparr>, s)
     \<and> pressKey E key s =
       (\<lparr>success = False, error = Some ''Browser not initialized'', data = None\<rparr>, s)
     \<and> scroll E dir distance s =
       (\<lparr>success = False, error = Some ''Browser not initialized'', data = None\<rparr>, s)
     \<and> extractText E selector s =
       (\<lparr>success = False, error = Some ''Browser not initialized'', data = None\<rparr>, s)
     \<and> extractData E extractionSpec s =
       (\<lparr>success = False, error = Some ''Browser not initialized'', data = None\<rparr>, s)
     \<and> takeScreenshot E s =
       (\<lparr>success = False, error = Some ''Browser not initialized'', data = None\<rparr>, s)
     \<and> waitForNavigation E t s =
       Some (\<lparr>success = False, error = Some ''Browser not initialized'', data = None\<rparr>, s)"
  using assms
  by (simp add: navigateTo_def clickElement_def typeText_def pressKey_def scroll_def
      extractText_def extractData_def takeScreenshot_def waitForNavigation_def
      notInitialized_def failWith_def)

theorem uninitialized_actions_rejected_witness:
  "\<not> isInitialized freshAgent
   \<and> navigateTo demoEnv ''http://localhost/demo'' freshAgent =
       (\<lparr>success = False, error = Some ''Browser not initialized'', data = None\<rparr>, freshAgent)
   \<and> extractData demoEnv [(''title'', ''h1'')] freshAgent =
       (\<lparr>success = False, error = Some ''Browser not initialized'', data = None\<rparr>, freshAgent)
   \<and> calls (snd (takeScreenshot demoEnv freshAgent)) = []"
  using uninitialized_actions_rejected
    [of freshAgent demoEnv "''http://localhost/demo''" _ _ _ _ _ _ "[(''title'', ''h1'')]"]
  by (simp add: freshAgent_simps)

subsection \<open>Plan execution\<close>

lemma length_stepOutcomes: "length (stepOutcomes E caps acts s) = length acts"
  by (induction acts arbitrary: s) (auto split: prod.splits)

lemma executeActions_prefix:
  "executeActions E caps acts acc s =
     (let outs = stepOutcomes E caps acts s;
          n = attemptedSteps acts (map fst outs)
      in (acc @ map fst (take n outs), if n = 0 then s else snd (outs ! (n - 1))))"
proof (induction acts arbitrary: acc s)
  case Nil
  then show ?case by simp
next
  case (Cons a rest)
  obtain r s1 where step: "performAction E caps a s = (r, s1)"
    by (cases "performAction E caps a s")
  show ?case
  proof (cases "stopsExecution a r")
    case True
    then show ?thesis
      using step by (simp add: stopsExecution_def)
  next
    case False
    then have "executeActions E caps (a # rest) acc s = executeActions E caps rest (acc @ [r]) s1"
      using step by (auto simp: stopsExecution_def)
    then show ?thesis
      using False step Cons.IH [of "acc @ [r]" s1]
      by (auto simp: Let_def nth_Cons split: nat.splits)
  qed
qed

lemma attemptedSteps_le: "attemptedSteps acts rs \<le> length acts"
  by (induction acts rs rule: attemptedSteps.induct) auto

lemma attemptedSteps_before:
  "Suc i < attemptedSteps acts rs \<Longrightarrow> \<not> stopsExecution (acts ! i) (rs ! i)"
proof (induction acts rs arbitrary: i rule: attemptedSteps.induct)
  case (1 a acts r rs)
  then show ?case by (cases i) (auto split: if_splits)
qed auto

lemma attemptedSteps_last:
  "length rs = length acts \<Longrightarrow> attemptedSteps acts rs < length acts \<Longrightarrow>
     0 < attemptedSteps acts rs \<and>
     stopsExecution (acts ! (attemptedSteps acts rs - 1)) (rs ! (attemptedSteps acts rs - 1))"
proof (induction acts rs rule: attemptedSteps.induct)
  case (1 a acts r rs)
  then show ?case by (auto split: if_splits simp: nth_Cons split: nat.splits)
qed auto

text \<open>
  C2, as the code has it. \<open>executePlan\<close> interprets the steps in order. With \<open>outs\<close> the
  outcomes of the steps run in turn and \<open>n\<close> the number of steps attempted,
  \<open>data.actions\<close> is exactly the results of the first \<open>n\<close> steps, the agent is the one
  the \<open>n\<close>-th step left (no later step is attempted), and \<open>success\<close> is true if and only
  if every attempted step succeeded. Every attempted step but the last succeeded or had
  \<open>params.optional\<close> set; when a step was left unattempted, the last attempted step
  failed and its \<open>params.optional\<close> was not set. The flag that lets execution continue
  past a failed step is the \<open>optional\<close> entry of the step's \<open>params\<close>, not a field of the
  step itself.
\<close>

theorem executePlan_attempted_prefix:
  fixes E :: "('n::{inverse,numeral}) env" and s :: "('n, 'm) agent_scheme"
  shows
  "(let acts = (case planActions p of Some acts \<Rightarrow> acts | None \<Rightarrow> []);
        outs = stepOutcomes E caps acts s;
        n = attemptedSteps acts (map fst outs);
        results = map fst (take n outs)
    in executePlan E caps p s =
         (\<lparr>success = (\<forall>r \<in> set results. stepSuccess r), error = None, data = Some results\<rparr>,
          if n = 0 then s else snd (outs ! (n - 1)))
     \<and> n \<le> length acts
     \<and> (\<forall>i. Suc i < n \<longrightarrow>
           stepSuccess (fst (outs ! i)) \<or> truthy (paramOptional (paramsOf (acts ! i))))
     \<and> (n < length acts \<longrightarrow>
           0 < n \<and> \<not> stepSuccess (fst (outs ! (n - 1))) \<and>
           \<not> truthy (paramOptional (paramsOf (acts ! (n - 1))))))"
proof -
  define acts where "acts = (case planActions p of Some acts \<Rightarrow> acts | None \<Rightarrow> [])"
  define outs where "outs = stepOutcomes E caps acts s"
  define n where "n = attemptedSteps acts (map fst outs)"
  have len: "length (map fst outs) = length acts"
    by (simp add: outs_def length_stepOutcomes)
  have run: "executePlan E caps p s =
      (\<lparr>success = (\<forall>r \<in> set (map fst (take n outs)). stepSuccess r), error = None,
        data = Some (map fst (take n outs))\<rparr>,
       if n = 0 then s else snd (outs ! (n - 1)))"
    unfolding executePlan_def acts_def [symmetric]
    by (simp add: executeActions_prefix [of E caps acts "[]" s] Let_def outs_def n_def
        list_all_iff)
  have le: "n \<le> length acts"
    unfolding n_def by (rule attemptedSteps_le)
  have before: "stepSuccess (fst (outs ! i)) \<or> truthy (paramOptional (paramsOf (acts ! i)))"
    if "Suc i < n" for i
  proof -
    have "i < length outs" using that le len by simp
    then show ?thesis
      using attemptedSteps_before [of i acts "map fst outs"] that
      by (auto simp: n_def stopsExecution_def)
  qed
  have stop: "0 < n \<and> \<not> stepSuccess (fst (outs ! (n - 1))) \<and>
      \<not> truthy (paramOptional (paramsOf (acts ! (n - 1))))" if "n < length acts"
  proof -
    have "n - 1 < length outs" using that len by simp
    then show ?thesis
      using attemptedSteps_last [OF len] that
      by (auto simp: n_def stopsExecution_def)
  qed
  show ?thesis
    using run le before stop
    unfolding Let_def acts_def [symmetric] outs_def [symmetric] n_def [symmetric]
    by blast
qed

theorem executePlan_attempted_prefix_witness:
  "executePlan demoEnv noCapabilities clickThenExtract readyAgent =
     (\<lparr>success = False, error = None,
       data = Some [\<lparr>stepType = ''click'', stepSuccess = False, stepData = None,
                     stepError = Some ''Could not find element: missing''\<rparr>]\<rparr>,
      readyAgent\<lparr>calls := contextCalls @
        [CallEvaluate (QueryElements (''*:contains('' @ quoted ''missing'' @ '')''))]\<rparr>)"
  using executePlan_attempted_prefix [of clickThenExtract demoEnv noCapabilities readyAgent]
  by (simp add: clickThenExtract_def demo_click_missing demo_extract_body readyAgent_simps
      demo_click_not_optional Let_def stopsExecution_def)

text \<open>
  The first step of this plan has no \<open>optional\<close> field of its own and fails (its type
  is not supported), yet the second step is attempted: the plan sets \<open>optional\<close> inside
  the first step's \<open>params\<close>.
\<close>

theorem executePlan_reads_optional_from_params:
  "actionOptional (hd (the (planActions hoverThenExtract))) = None
   \<and> data (fst (executePlan demoEnv noCapabilities hoverThenExtract readyAgent)) =
       Some [\<lparr>stepType = ''hover'', stepSuccess = False, stepData = None,
               stepError = Some ''Unsupported action type: hover''\<rparr>,
             \<lparr>stepType = ''extract'', stepSuccess = True,
               stepData = Some (DataTexts [''Welcome'']), stepError = None\<rparr>]
   \<and> calls (snd (executePlan demoEnv noCapabilities hoverThenExtract readyAgent)) =
       [CallEvaluate (ExtractTexts ''h1'')]"
  by (simp add: hoverThenExtract_def executePlan_def performAction_def paramsOf_def noParams_def
      truthy_def extractText_def flow readyAgent_simps demoEnv_simps demoMatches_def
      demoElement_def extractTextsScript_def trimmedTexts_def stepOf_def succeedWith_def
      asciiTrim_def asciiSpace_def)

text \<open>
  C10. A plan object whose \<open>actions\<close> field is absent or is the empty sequence makes
  \<open>executePlan\<close> return \<open>{success: true, data: {actions: []}}\<close>: no step result is
  recorded and the agent, with its log of driver calls, is unchanged.
\<close>

theorem empty_plan_succeeds:
  assumes "planActions p = None \<or> planActions p = Some []"
  shows "executePlan E caps p s = (\<lparr>success = True, error = None, data = Some []\<rparr>, s)"
  using assms by (auto simp: executePlan_def)

theorem empty_plan_succeeds_witness:
  "executePlan demoEnv noCapabilities \<lparr>planActions = None\<rparr> readyAgent =
     (\<lparr>success = True, error = None, data = Some []\<rparr>, readyAgent)
   \<and> executePlan demoEnv noCapabilities \<lparr>planActions = Some []\<rparr> freshAgent =
     (\<lparr>success = True, error = None, data = Some []\<rparr>, freshAgent)"
  using empty_plan_succeeds [of "\<lparr>planActions = None\<rparr>" demoEnv noCapabilities readyAgent]
    empty_plan_succeeds [of "\<lparr>planActions = Some []\<rparr>" demoEnv noCapabilities freshAgent]
  by simp

subsection \<open>Structured extraction\<close>

lemma extractDataLoop_distinct:
  assumes "\<forall>(k, sel) \<in> set spec. querySelectorAll d sel = Inr (m sel)"
    and "distinct (map fst spec)"
    and "fst ` set acc \<inter> fst ` set spec = {}"
  shows "extractDataLoop E d spec acc =
           Inr (acc @ map (\<lambda>(k, sel). (k, resolveMatches E (m sel)))
             (filter (\<lambda>(k, sel). k \<noteq> ''__proto__'') spec))"
  using assms
proof (induction spec arbitrary: acc)
  case Nil
  then show ?case by simp
next
  case (Cons b rest)
  obtain k sel where b: "b = (k, sel)" by (cases b)
  have found: "querySelectorAll d sel = Inr (m sel)"
    using Cons.prems(1) b by simp
  show ?case
  proof (cases "k = ''__proto__''")
    case True
    have "extractDataLoop E d rest acc =
          Inr (acc @ map (\<lambda>(k, sel). (k, resolveMatches E (m sel)))
            (filter (\<lambda>(k, sel). k \<noteq> ''__proto__'') rest))"
      using Cons.prems b by (intro Cons.IH) auto
    then show ?thesis
      using True b found by (simp add: assignProperty_def)
  next
    case False
    have fresh: "k \<notin> fst ` set acc" using Cons.prems(3) b by auto
    have upd: "AList.update k v acc = acc @ [(k, v)]" for v :: extracted
      using fresh by (induction acc) auto
    have "extractDataLoop E d rest (acc @ [(k, resolveMatches E (m sel))]) =
          Inr ((acc @ [(k, resolveMatches E (m sel))]) @
            map (\<lambda>(k, sel). (k, resolveMatches E (m sel)))
              (filter (\<lambda>(k, sel). k \<noteq> ''__proto__'') rest))"
      using Cons.prems b by (intro Cons.IH) auto
    then show ?thesis
      using False b found by (simp add: assignProperty_def upd)
  qed
qed

text \<open>
  C3, as the code has it. On an initialized agent whose driver does not fault, with a
  spec of distinct keys whose selectors the page resolves (\<open>m sel\<close> are the matches of
  \<open>sel\<close>, in document order), \<open>extractData\<close> succeeds and maps every key, independently
  of the others and in the order of the spec: no match gives null; exactly one match
  gives its trimmed text when that is not empty, and null when it is empty; more than
  one match gives the sequence of the non-empty trimmed texts, in order. The trimming
  is the host language's, whatever it strips. The key \<open>__proto__\<close> gets no entry.
\<close>

theorem extractData_resolves_keys:
  assumes "isInitialized s"
    and "fault E (calls s) (CallEvaluate (ExtractData spec)) = None"
    and "distinct (map fst spec)"
    and "\<forall>(k, sel) \<in> set spec. querySelectorAll (pageAt E (calls s)) sel = Inr (m sel)"
  shows "extractData E spec s =
    (\<lparr>success = True, error = None,
      data = Some (DataExtracted (map (\<lambda>(k, sel). (k,
        if m sel = [] then XNull
        else if length (m sel) = 1 then
          (if trim E (textContent (hd (m sel))) = [] then XNull
           else XText (trim E (textContent (hd (m sel)))))
        else XList (filter (\<lambda>t. t \<noteq> []) (map (\<lambda>el. trim E (textContent el)) (m sel)))))
        (filter (\<lambda>(k, sel). k \<noteq> ''__proto__'') spec)))\<rparr>,
     s\<lparr>calls := calls s @ [CallEvaluate (ExtractData spec)]\<rparr>)"
proof -
  have res: "resolveMatches E els =
      (if els = [] then XNull
       else if length els = 1 then
         (if trim E (textContent (hd els)) = [] then XNull
          else XText (trim E (textContent (hd els))))
       else XList (filter (\<lambda>t. t \<noteq> []) (map (\<lambda>el. trim E (textContent el)) els)))"
    for els :: "'a element list"
    by (cases els) (simp_all add: resolveMatches_def trimmedTexts_def Let_def)
  have "extractDataScript E spec (pageAt E (calls s)) =
      Inr (map (\<lambda>(k, sel). (k, resolveMatches E (m sel)))
        (filter (\<lambda>(k, sel). k \<noteq> ''__proto__'') spec))"
    unfolding extractDataScript_def
    using extractDataLoop_distinct [OF assms(4) assms(3), of "[]" E] by simp
  then show ?thesis
    using assms(1,2) by (simp add: extractData_def flow succeedWith_def res)
qed

theorem extractData_resolves_keys_witness:
  "extractData demoEnv demoSpec readyAgent =
     (\<lparr>success = True, error = None,
       data = Some (DataExtracted
         [(''title'', XText ''Welcome''), (''items'', XList [''one'', ''three'']),
          (''rows'', XNull)])\<rparr>,
      readyAgent\<lparr>calls := [CallEvaluate (ExtractData demoSpec)]\<rparr>)"
proof -
  have a1: "isInitialized readyAgent" by (simp add: readyAgent_simps)
  have a2: "fault demoEnv (calls readyAgent) (CallEvaluate (ExtractData demoSpec)) = None"
    by (simp add: demoEnv_simps)
  have a3: "distinct (map fst demoSpec)" by (simp add: demoSpec_def)
  have a4: "\<forall>(k, sel) \<in> set demoSpec.
      querySelectorAll (pageAt demoEnv (calls readyAgent)) sel = Inr (demoMatched sel)"
    by (simp add: demoSpec_def demoEnv_simps demoMatched_def demoMatches_def)
  show ?thesis
    using extractData_resolves_keys [OF a1 a2 a3 a4]
    by (simp add: demoSpec_def demoMatched_def demoMatches_def demoElement_def demoEnv_simps
        asciiTrim_def asciiSpace_def readyAgent_simps)
qed

text \<open>
  A selector with exactly one match whose text is blank yields null, not the trimmed
  text (the empty string); a selector with three matches, one of them blank, yields a
  sequence of two texts.
\<close>

theorem extractData_drops_blank_text:
  "demoMatches ''p.blank'' = Inr [demoElement ''P'' ''   '']
   \<and> demoMatches ''li'' =
       Inr [demoElement ''LI'' ''one'', demoElement ''LI'' ''  '', demoElement ''LI'' '' three'']
   \<and> fst (extractData demoEnv blankSpec readyAgent) =
       \<lparr>success = True, error = None,
        data = Some (DataExtracted [(''note'', XNull), (''items'', XList [''one'', ''three''])])\<rparr>"
  by (simp add: blankSpec_def extractData_def flow readyAgent_simps demoEnv_simps
      demoMatches_def demoElement_def extractDataScript_def assignProperty_def
      resolveMatches_def trimmedTexts_def succeedWith_def asciiTrim_def asciiSpace_def)

subsection \<open>Planning\<close>

text \<open>
  C4, as the code has it. \<open>createPlanForPage\<close> never throws: it always returns an action
  result. When the page context is built and the planning capability is absent, the
  result is a success carrying the fixed plan with the single \<open>extract\<close> action on
  \<open>h1, h2, .content, article\<close>; when the capability is present and its call returns, the
  result is a success carrying the plan it returned. When building the page context
  fails (the screenshot, for one), or the capability's call throws, the result is a
  failure whose error is \<open>Failed to create plan:\<close> followed by the message.
\<close>

theorem createPlanForPage_outcomes:
  "(getPageContext E s = (Inl e, s1) \<longrightarrow>
      createPlanForPage E caps instruction s =
        (\<lparr>success = False, error = Some (''Failed to create plan: '' @ e), data = None\<rparr>, s1))
   \<and> (getPageContext E s = (Inr ctx, s1) \<and> planCapability caps = None \<longrightarrow>
      createPlanForPage E caps instruction s =
        (\<lparr>success = True, error = None,
          data = Some (DataPlan \<lparr>planActions = Some
            [\<lparr>actionType = ''extract'',
              actionParams = Some \<lparr>paramElement = None, paramText = None,
                paramSelector = Some ''h1, h2, .content, article'', paramOptional = None\<rparr>,
              actionOptional = None\<rparr>]\<rparr>)\<rparr>, s1))
   \<and> (getPageContext E s = (Inr ctx, s1) \<and> planCapability caps = Some planFn \<and>
        planFn instruction ctx = Inr planningResult \<longrightarrow>
      createPlanForPage E caps instruction s =
        (\<lparr>success = True, error = None, data = Some (DataPlan planningResult)\<rparr>, s1))
   \<and> (getPageContext E s = (Inr ctx, s1) \<and> planCapability caps = Some planFn \<and>
        planFn instruction ctx = Inl e \<longrightarrow>
      createPlanForPage E caps instruction s =
        (\<lparr>success = False, error = Some (''Failed to create plan: '' @ e), data = None\<rparr>, s1))"
  by (simp add: createPlanForPage_def flow succeedWith_def failWith_def mockPlan_def)

theorem createPlanForPage_outcomes_witness:
  "createPlanForPage demoEnv noCapabilities ''list the headings'' readyAgent =
     (\<lparr>success = True, error = None,
       data = Some (DataPlan \<lparr>planActions = Some
         [\<lparr>actionType = ''extract'',
           actionParams = Some \<lparr>paramElement = None, paramText = None,
             paramSelector = Some ''h1, h2, .content, article'', paramOptional = None\<rparr>,
           actionOptional = None\<rparr>]\<rparr>)\<rparr>, readyAgent\<lparr>calls := contextCalls\<rparr>)
   \<and> createPlanForPage demoEnv demoPlanner ''list the headings'' readyAgent =
     (\<lparr>success = True, error = None, data = Some (DataPlan mockPlan)\<rparr>,
      readyAgent\<lparr>calls := contextCalls\<rparr>)"
  using createPlanForPage_outcomes
    [of demoEnv readyAgent _ "readyAgent\<lparr>calls := contextCalls\<rparr>" noCapabilities
      "''list the headings''" demoContext]
    createPlanForPage_outcomes
    [of demoEnv readyAgent _ "readyAgent\<lparr>calls := contextCalls\<rparr>" demoPlanner
      "''list the headings''" demoContext "\<lambda>instruction ctx. Inr mockPlan" mockPlan]
  by (simp add: demo_context noCapabilities_def demoPlanner_def)

text \<open>
  On an initialized agent whose driver faults on the screenshot call, planning returns a
  failure, with the planning capability absent and with it present.
\<close>

theorem createPlanForPage_fails_without_screenshot:
  "isInitialized readyAgent
   \<and> fst (createPlanForPage noCameraEnv noCapabilities ''list the headings'' readyAgent) =
       \<lparr>success = False,
        error = Some (''Failed to create plan: Failed to take screenshot: '' @
          ''Failed to take screenshot: Target closed''),
        data = None\<rparr>
   \<and> fst (createPlanForPage noCameraEnv demoPlanner ''list the headings'' readyAgent) =
       \<lparr>success = False,
        error = Some (''Failed to create plan: Failed to take screenshot: '' @
          ''Failed to take screenshot: Target closed''),
        data = None\<rparr>"
  by (simp add: createPlanForPage_def getPageContext_def takeScreenshot_def flow
      readyAgent_simps noCameraEnv_def demoEnv_def failWith_def)

subsection \<open>Element location without the reasoning service\<close>



subsection \<open>Lifecycle\<close>

text \<open>
  C6, as the code has it. The agent has one flag: it is initialized or it is not, and an
  agent that was closed is an agent that is not initialized. \<open>close\<close> on an agent that is
  not initialized is a no-op that makes no driver call; \<open>close\<close> on an initialized agent
  whose driver closes makes the one driver call and clears the flag; after a \<open>close\<close>
  that returned, the agent is not initialized and a second \<open>close\<close> is that no-op. From
  an agent that is not initialized, closed before or not, \<open>initialize\<close> leads to
  Initialized when the driver starts.
\<close>

theorem close_lifecycle:
  "(\<not> isInitialized s \<longrightarrow> close E s = (Inr (), s))
   \<and> (isInitialized s \<and> fault E (calls s) CallClose = None \<longrightarrow>
        close E s = (Inr (), s\<lparr>calls := calls s @ [CallClose], isInitialized := False\<rparr>))
   \<and> (close E s = (Inr (), s1) \<longrightarrow> \<not> isInitialized s1 \<and> close E s1 = (Inr (), s1))
   \<and> (\<not> isInitialized s \<and> fault E (calls s) (CallInitialize (optHeadless s)) = None \<and>
        optUserAgent s = None \<longrightarrow> isInitialized (snd (initialize E s)))"
  by (auto simp: close_def initialize_def flow Let_def split: option.splits if_splits)

theorem close_lifecycle_witness:
  "close demoEnv freshAgent = (Inr (), freshAgent)
   \<and> close demoEnv readyAgent =
       (Inr (), readyAgent\<lparr>calls := [CallClose], isInitialized := False\<rparr>)
   \<and> close demoEnv (snd (close demoEnv readyAgent)) = (Inr (), snd (close demoEnv readyAgent))
   \<and> isInitialized (snd (initialize demoEnv (snd (close demoEnv readyAgent))))"
  using close_lifecycle [of freshAgent demoEnv]
    close_lifecycle [of readyAgent demoEnv "snd (close demoEnv readyAgent)"]
    close_lifecycle [of "snd (close demoEnv readyAgent)" demoEnv]
  by (simp add: freshAgent_def readyAgent_def newCrawlerAgent_def demoEnv_def)

text \<open>
  An agent is initialized, closed, and initialized again: the second \<open>initialize\<close>
  succeeds and the agent is back in the Initialized state.
\<close>

theorem closed_agent_initializes_again:
  "isInitialized (snd (initialize demoEnv freshAgent))
   \<and> \<not> isInitialized (snd (close demoEnv (snd (initialize demoEnv freshAgent))))
   \<and> fst (initialize demoEnv (snd (close demoEnv (snd (initialize demoEnv freshAgent))))) =
       \<lparr>success = True, error = None, data = None\<rparr>
   \<and> isInitialized
       (snd (initialize demoEnv (snd (close demoEnv (snd (initialize demoEnv freshAgent))))))"
  by (simp add: initialize_def close_def flow freshAgent_def newCrawlerAgent_def demoEnv_def
      succeed_def)

text \<open>
  C7. On an agent that is not initialized: when the driver's start faults, or the
  user-agent override is due (a non-empty user agent and a driver with a page) and its
  evaluation faults, \<open>initialize\<close> returns a failure whose error is
  \<open>Failed to initialize browser:\<close> followed by the underlying message, and the agent is
  still not initialized; when neither faults, \<open>initialize\<close> succeeds. The result is a
  success exactly when the agent is initialized afterwards.
\<close>

theorem initialize_all_or_nothing:
  assumes "\<not> isInitialized s"
  shows
    "(fault E (calls s) (CallInitialize (optHeadless s)) = Some e \<longrightarrow>
        fst (initialize E s) =
          \<lparr>success = False, error = Some (''Failed to initialize browser: '' @ e), data = None\<rparr>
        \<and> \<not> isInitialized (snd (initialize E s)))
     \<and> (fault E (calls s) (CallInitialize (optHeadless s)) = None \<and>
        optUserAgent s = Some ua \<and> ua \<noteq> [] \<and> hasPage E \<and>
        fault E (calls s @ [CallInitialize (optHeadless s)]) (CallEvaluate (SetUserAgent ua)) =
          Some e \<longrightarrow>
        fst (initialize E s) =
          \<lparr>success = False, error = Some (''Failed to initialize browser: '' @ e), data = None\<rparr>
        \<and> \<not> isInitialized (snd (initialize E s)))
     \<and> (fault E (calls s) (CallInitialize (optHeadless s)) = None \<and>
        (optUserAgent s = None \<or> optUserAgent s = Some [] \<or> \<not> hasPage E \<or>
         (\<exists>ua. optUserAgent s = Some ua \<and>
            fault E (calls s @ [CallInitialize (optHeadless s)]) (CallEvaluate (SetUserAgent ua)) =
              None))
        \<longrightarrow> fst (initialize E s) = \<lparr>success = True, error = None, data = None\<rparr>)
     \<and> isInitialized (snd (initialize E s)) = success (fst (initialize E s))"
  using assms
  by (auto simp: initialize_def flow Let_def succeed_def failWith_def
      split: option.splits if_splits)

theorem initialize_all_or_nothing_witness:
  "fst (initialize noStartEnv freshAgent) =
     \<lparr>success = False, error = Some ''Failed to initialize browser: spawn ENOENT'', data = None\<rparr>
   \<and> \<not> isInitialized (snd (initialize noStartEnv freshAgent))
   \<and> fst (initialize demoEnv freshAgent) = \<lparr>success = True, error = None, data = None\<rparr>
   \<and> isInitialized (snd (initialize demoEnv freshAgent))"
proof -
  have u: "\<not> isInitialized freshAgent" by (simp add: freshAgent_simps)
  have f1: "fault noStartEnv (calls freshAgent) (CallInitialize (optHeadless freshAgent)) =
      Some ''spawn ENOENT''"
    by (simp add: noStartEnv_def freshAgent_simps)
  have f2: "fault demoEnv (calls freshAgent) (CallInitialize (optHeadless freshAgent)) = None"
    by (simp add: demoEnv_simps)
  have f3: "optUserAgent freshAgent = None" by (simp add: freshAgent_simps)
  show ?thesis
    using initialize_all_or_nothing [OF u, of noStartEnv "''spawn ENOENT''"]
      initialize_all_or_nothing [OF u, of demoEnv] f1 f2 f3
    by simp
qed

subsection \<open>Waiting for the page\<close>












subsection \<open>Screenshot files\<close>

lemma digitChar_digit: "d < 10 \<Longrightarrow> digitChar d \<in> set ''0123456789''"
  unfolding digitChar_def by (rule nth_mem) simp

lemma showNat_digits: "set (showNat n) \<subseteq> set ''0123456789''"
proof (induction n rule: showNat.induct)
  case (1 n)
  show ?case
  proof (cases "n < 10")
    case True
    then show ?thesis
      using digitChar_digit [of n] by (subst showNat.simps) simp
  next
    case False
    then show ?thesis
      using 1 digitChar_digit [of "n mod 10"] by (subst showNat.simps) simp
  qed
qed

lemma showNat_no_dash: "CHR ''-'' \<notin> set (showNat n)"
  using showNat_digits [of n] by auto

lemma split_at_dash:
  assumes "xs @ CHR ''-'' # ys = xs' @ CHR ''-'' # ys'"
    and "CHR ''-'' \<notin> set xs" and "CHR ''-'' \<notin> set xs'"
  shows "xs = xs' \<and> ys = ys'"
proof -
  have "takeWhile (\<lambda>c. c \<noteq> CHR ''-'') (xs @ CHR ''-'' # ys) = xs"
    and "dropWhile (\<lambda>c. c \<noteq> CHR ''-'') (xs @ CHR ''-'' # ys) = CHR ''-'' # ys"
    using assms(2) by (induction xs) auto
  moreover have "takeWhile (\<lambda>c. c \<noteq> CHR ''-'') (xs' @ CHR ''-'' # ys') = xs'"
    and "dropWhile (\<lambda>c. c \<noteq> CHR ''-'') (xs' @ CHR ''-'' # ys') = CHR ''-'' # ys'"
    using assms(3) by (induction xs') auto
  ultimately show ?thesis using assms(1) by simp
qed

lemma showNat_nonempty: "showNat n \<noteq> []"
  by (subst showNat.simps) simp

lemma digitChar_inj: "a < 10 \<Longrightarrow> b < 10 \<Longrightarrow> digitChar a = digitChar b \<Longrightarrow> a = b"
  unfolding digitChar_def
  by (subst (asm) nth_eq_iff_index_eq) simp_all

lemma showNat_inj: "showNat a = showNat b \<Longrightarrow> a = b"
proof (induction a arbitrary: b rule: showNat.induct)
  case (1 a)
  show ?case
  proof (cases "a < 10")
    case small_a: True
    show ?thesis
    proof (cases "b < 10")
      case True
      then show ?thesis
        using small_a "1.prems" digitChar_inj [of a b]
        by (simp add: showNat.simps [of a] showNat.simps [of b])
    next
      case False
      then show ?thesis
        using small_a "1.prems" showNat_nonempty [of "b div 10"]
        by (simp add: showNat.simps [of a] showNat.simps [of b])
    qed
  next
    case big_a: False
    show ?thesis
    proof (cases "b < 10")
      case True
      then show ?thesis
        using big_a "1.prems" showNat_nonempty [of "a div 10"]
        by (simp add: showNat.simps [of a] showNat.simps [of b])
    next
      case False
      then have "showNat (a div 10) = showNat (b div 10)"
        and d: "digitChar (a mod 10) = digitChar (b mod 10)"
        using big_a "1.prems" by (simp_all add: showNat.simps [of a] showNat.simps [of b])
      then have "a div 10 = b div 10"
        using "1.IH" big_a by simp
      moreover have "a mod 10 = b mod 10"
        using d by (intro digitChar_inj) simp_all
      ultimately show ?thesis
        by (metis div_mult_mod_eq)
    qed
  qed
qed

lemma screenshotFilename_inj:
  assumes "screenshotFilename t c = screenshotFilename t' c'"
  shows "t = t' \<and> c = c'"
proof -
  have "showNat t @ CHR ''-'' # (showNat c @ ''.jpg'') =
        showNat t' @ CHR ''-'' # (showNat c' @ ''.jpg'')"
    using assms by (simp add: screenshotFilename_def)
  then have "showNat t = showNat t' \<and> showNat c @ ''.jpg'' = showNat c' @ ''.jpg''"
    by (rule split_at_dash) (rule showNat_no_dash)+
  then show ?thesis
    by (auto dest: showNat_inj)
qed

lemma saveScreenshot_step:
  fixes s :: "('n, 'm) ai_agent_scheme"
  obtains (skipped) s1 f1 where
      "saveScreenshot join w b (s, f) = ([], s1, f1)"
      "outputDir s1 = outputDir s" "screenshotCounter s \<le> screenshotCounter s1"
      "writtenFiles f1 = writtenFiles f" "screenshotCounter s1 \<le> screenshotCounter s + 1"
  | (written) s1 f1 where
      "saveScreenshot join w b (s, f) =
         (join (join (outputDir s) ''screenshots'')
            (screenshotFilename (dateNow w) (screenshotCounter s + 1)), s1, f1)"
      "outputDir s1 = outputDir s" "screenshotCounter s1 = screenshotCounter s + 1"
      "writtenFiles f1 = writtenFiles f @
         [(join (join (outputDir s) ''screenshots'')
             (screenshotFilename (dateNow w) (screenshotCounter s + 1)), b)]"
proof -
  let ?dir = "join (outputDir s) ''screenshots''"
  let ?f1 = "if ?dir \<notin> set (existingPaths f)
             then f\<lparr>existingPaths := existingPaths f @ [?dir]\<rparr> else f"
  let ?s1 = "s\<lparr>screenshotCounter := screenshotCounter s + 1\<rparr>"
  let ?p = "join ?dir (screenshotFilename (dateNow w) (screenshotCounter s + 1))"
  show thesis
  proof (cases "outputDir s = [] \<or> (?dir \<notin> set (existingPaths f) \<and> mkdirFails w)")
    case True
    then have "saveScreenshot join w b (s, f) = ([], s, f)"
      by (auto simp: saveScreenshot_def Let_def)
    then show thesis
      by (rule skipped) simp_all
  next
    case ready: False
    show thesis
    proof (cases "writeFails w")
      case True
      then have "saveScreenshot join w b (s, f) = ([], ?s1, ?f1)"
        using ready by (auto simp: saveScreenshot_def Let_def)
      then show thesis
        by (rule skipped) simp_all
    next
      case False
      then have "saveScreenshot join w b (s, f) =
          (?p, ?s1, ?f1\<lparr>writtenFiles := writtenFiles ?f1 @ [(?p, b)]\<rparr>)"
        using ready by (auto simp: saveScreenshot_def Let_def)
      then show thesis
        by (rule written) simp_all
    qed
  qed
qed

text \<open>
  C9, as the code has it. A screenshot write that gets through (an output directory is
  set, the screenshots directory exists or can be made, the file can be written) goes
  to the path \<open>join (join outputDir "screenshots") name\<close>, where the file name is
  \<open>screenshot-<epoch_ms>-<counter>.jpg\<close> with the reading of the clock at the write and
  the agent's counter after its increment; any other write returns the empty path and
  writes no file. The file name determines the timestamp and the counter. With no
  \<open>initialize\<close> between them, the writes of one agent have distinct paths, since each
  write takes the next counter; \<open>join\<close> is taken to give different paths to different
  screenshot file names in the screenshots directory.
\<close>

theorem screenshot_files_distinct:
  fixes s :: "('n, 'm) ai_agent_scheme"
  assumes "inj_on (join (join (outputDir s) ''screenshots''))
             {name. \<exists>t c. name = screenshotFilename t c}"
  shows
    "(\<forall>w b f. outputDir s \<noteq> [] \<and> \<not> writeFails w \<and>
         (join (outputDir s) ''screenshots'' \<in> set (existingPaths f) \<or> \<not> mkdirFails w) \<longrightarrow>
         fst (saveScreenshot join w b (s, f)) =
           join (join (outputDir s) ''screenshots'')
             (screenshotFilename (dateNow w) (screenshotCounter s + 1))
         \<and> screenshotCounter (fst (snd (saveScreenshot join w b (s, f)))) =
             screenshotCounter s + 1
         \<and> writtenFiles (snd (snd (saveScreenshot join w b (s, f)))) =
             writtenFiles f @
               [(join (join (outputDir s) ''screenshots'')
                   (screenshotFilename (dateNow w) (screenshotCounter s + 1)), b)])
     \<and> (\<forall>w b f. \<not> (outputDir s \<noteq> [] \<and> \<not> writeFails w \<and>
         (join (outputDir s) ''screenshots'' \<in> set (existingPaths f) \<or> \<not> mkdirFails w)) \<longrightarrow>
         fst (saveScreenshot join w b (s, f)) = []
         \<and> writtenFiles (snd (snd (saveScreenshot join w b (s, f)))) = writtenFiles f)
     \<and> (\<exists>new. writtenFiles (snd (saveScreenshots join evs (s, f))) = writtenFiles f @ new
           \<and> distinct (map fst new)
           \<and> (\<forall>p \<in> set (map fst new). \<exists>w c. w \<in> fst ` set evs \<and>
                 screenshotCounter s < c \<and> c \<le> screenshotCounter s + length evs \<and>
                 p = join (join (outputDir s) ''screenshots'')
                       (screenshotFilename (dateNow w) c)))
     \<and> (\<forall>t c. screenshotFilename t c =
           ''screenshot-'' @ showNat t @ ''-'' @ showNat c @ ''.jpg'')
     \<and> (\<forall>t c t' c'. screenshotFilename t c = screenshotFilename t' c' \<longrightarrow> t = t' \<and> c = c')"
proof -
  have run: "\<exists>new. writtenFiles (snd (saveScreenshots join evs (s, f))) = writtenFiles f @ new
           \<and> distinct (map fst new)
           \<and> (\<forall>p \<in> set (map fst new). \<exists>w c. w \<in> fst ` set evs \<and>
                 screenshotCounter s < c \<and> c \<le> screenshotCounter s + length evs \<and>
                 p = join (join (outputDir s) ''screenshots'')
                       (screenshotFilename (dateNow w) c))"
    using assms
  proof (induction evs arbitrary: s f)
    case Nil
    then show ?case by simp
  next
    case (Cons ev rest)
    obtain w b where ev: "ev = (w, b)" by (cases ev)
    let ?dir = "join (outputDir s) ''screenshots''"
    show ?case
    proof (cases rule: saveScreenshot_step [of join w b s f])
      case (skipped s1 f1)
      have "inj_on (join (join (outputDir s1) ''screenshots''))
          {name. \<exists>t c. name = screenshotFilename t c}"
        using Cons.prems skipped(2) by simp
      from Cons.IH [OF this, of f1]
      obtain new where n:
        "writtenFiles (snd (saveScreenshots join rest (s1, f1))) = writtenFiles f1 @ new"
        "distinct (map fst new)"
        "\<forall>p \<in> set (map fst new). \<exists>w c. w \<in> fst ` set rest \<and>
           screenshotCounter s1 < c \<and> c \<le> screenshotCounter s1 + length rest \<and>
           p = join (join (outputDir s1) ''screenshots'') (screenshotFilename (dateNow w) c)"
        by blast
      have later: "\<forall>p \<in> set (map fst new). \<exists>w c. w \<in> fst ` set (ev # rest) \<and>
           screenshotCounter s < c \<and> c \<le> screenshotCounter s + length (ev # rest) \<and>
           p = join ?dir (screenshotFilename (dateNow w) c)"
      proof
        fix p assume "p \<in> set (map fst new)"
        then obtain w' c where "w' \<in> fst ` set rest" "screenshotCounter s1 < c"
          "c \<le> screenshotCounter s1 + length rest"
          "p = join (join (outputDir s1) ''screenshots'') (screenshotFilename (dateNow w') c)"
          using n(3) by blast
        then show "\<exists>w c. w \<in> fst ` set (ev # rest) \<and>
           screenshotCounter s < c \<and> c \<le> screenshotCounter s + length (ev # rest) \<and>
           p = join ?dir (screenshotFilename (dateNow w) c)"
          using skipped(2,3,5) by (intro exI [of _ w'] exI [of _ c]) auto
      qed
      have "writtenFiles (snd (saveScreenshots join (ev # rest) (s, f))) = writtenFiles f @ new"
        using n(1) skipped(1,4) ev by simp
      then show ?thesis
        using n(2) later by blast
    next
      case (written s1 f1)
      have "inj_on (join (join (outputDir s1) ''screenshots''))
          {name. \<exists>t c. name = screenshotFilename t c}"
        using Cons.prems written(2) by simp
      from Cons.IH [OF this, of f1]
      obtain new where n:
        "writtenFiles (snd (saveScreenshots join rest (s1, f1))) = writtenFiles f1 @ new"
        "distinct (map fst new)"
        "\<forall>p \<in> set (map fst new). \<exists>w c. w \<in> fst ` set rest \<and>
           screenshotCounter s1 < c \<and> c \<le> screenshotCounter s1 + length rest \<and>
           p = join (join (outputDir s1) ''screenshots'') (screenshotFilename (dateNow w) c)"
        by blast
      let ?p = "join ?dir (screenshotFilename (dateNow w) (screenshotCounter s + 1))"
      have fresh: "?p \<notin> set (map fst new)"
      proof
        assume "?p \<in> set (map fst new)"
        with n(3) have "\<exists>w' c. w' \<in> fst ` set rest \<and>
           screenshotCounter s1 < c \<and> c \<le> screenshotCounter s1 + length rest \<and>
           ?p = join (join (outputDir s1) ''screenshots'') (screenshotFilename (dateNow w') c)"
          by (rule bspec)
        then obtain w' :: io and c where c: "screenshotCounter s1 < c"
          and "?p = join (join (outputDir s1) ''screenshots'') (screenshotFilename (dateNow w') c)"
          by blast
        then have "join ?dir (screenshotFilename (dateNow w) (screenshotCounter s + 1)) =
            join ?dir (screenshotFilename (dateNow w') c)"
          using written(2) by simp
        then have "screenshotFilename (dateNow w) (screenshotCounter s + 1) =
            screenshotFilename (dateNow w') c"
          using Cons.prems by (auto dest!: inj_onD)
        then have "screenshotCounter s + 1 = c"
          using screenshotFilename_inj by blast
        then show False using c written(3) by simp
      qed
      have later: "\<forall>p \<in> set (map fst ((?p, b) # new)). \<exists>w c. w \<in> fst ` set (ev # rest) \<and>
           screenshotCounter s < c \<and> c \<le> screenshotCounter s + length (ev # rest) \<and>
           p = join ?dir (screenshotFilename (dateNow w) c)"
      proof
        fix p assume "p \<in> set (map fst ((?p, b) # new))"
        then consider "p = ?p" | "p \<in> set (map fst new)" by auto
        then show "\<exists>w c. w \<in> fst ` set (ev # rest) \<and>
           screenshotCounter s < c \<and> c \<le> screenshotCounter s + length (ev # rest) \<and>
           p = join ?dir (screenshotFilename (dateNow w) c)"
        proof cases
          case 1
          then show ?thesis
            using ev by (intro exI [of _ w] exI [of _ "screenshotCounter s + 1"]) simp
        next
          case 2
          then obtain w' c where "w' \<in> fst ` set rest" "screenshotCounter s1 < c"
            "c \<le> screenshotCounter s1 + length rest"
            "p = join (join (outputDir s1) ''screenshots'') (screenshotFilename (dateNow w') c)"
            using n(3) by blast
          then show ?thesis
            using written(2,3) by (intro exI [of _ w'] exI [of _ c]) auto
        qed
      qed
      have "writtenFiles (snd (saveScreenshots join (ev # rest) (s, f))) =
          writtenFiles f @ (?p, b) # new"
        using n(1) written(1,4) ev by simp
      moreover have "distinct (map fst ((?p, b) # new))"
        using n(2) fresh by simp
      ultimately show ?thesis
        using later by blast
    qed
  qed
  have through: "\<forall>w b f. outputDir s \<noteq> [] \<and> \<not> writeFails w \<and>
         (join (outputDir s) ''screenshots'' \<in> set (existingPaths f) \<or> \<not> mkdirFails w) \<longrightarrow>
         fst (saveScreenshot join w b (s, f)) =
           join (join (outputDir s) ''screenshots'')
             (screenshotFilename (dateNow w) (screenshotCounter s + 1))
         \<and> screenshotCounter (fst (snd (saveScreenshot join w b (s, f)))) =
             screenshotCounter s + 1
         \<and> writtenFiles (snd (snd (saveScreenshot join w b (s, f)))) =
             writtenFiles f @
               [(join (join (outputDir s) ''screenshots'')
                   (screenshotFilename (dateNow w) (screenshotCounter s + 1)), b)]"
    by (auto simp: saveScreenshot_def Let_def)
  have refused: "\<forall>w b f. \<not> (outputDir s \<noteq> [] \<and> \<not> writeFails w \<and>
         (join (outputDir s) ''screenshots'' \<in> set (existingPaths f) \<or> \<not> mkdirFails w)) \<longrightarrow>
         fst (saveScreenshot join w b (s, f)) = []
         \<and> writtenFiles (snd (snd (saveScreenshot join w b (s, f)))) = writtenFiles f"
    by (auto simp: saveScreenshot_def Let_def)
  have format: "\<forall>t c. screenshotFilename t c =
      ''screenshot-'' @ showNat t @ ''-'' @ showNat c @ ''.jpg''"
    by (simp add: screenshotFilename_def)
  have unique: "\<forall>t c t' c'. screenshotFilename t c = screenshotFilename t' c' \<longrightarrow>
      t = t' \<and> c = c'"
    using screenshotFilename_inj by blast
  from through refused run format unique show ?thesis
    by (intro conjI)
qed

lemma showNat_demo:
  "showNat 1000 = ''1000''" "showNat (Suc 0) = ''1''" "showNat (Suc (Suc 0)) = ''2''"
  by code_simp+

lemma demoJoin_inj: "inj (demoJoin dir)"
  by (simp add: inj_def demoJoin_def)

lemma demoAIAgent_simps:
  "outputDir demoAIAgent = ''out''" "screenshotCounter demoAIAgent = 0"
  "isInitialized demoAIAgent" "optHeadless demoAIAgent = False"
  "optUserAgent demoAIAgent = None" "calls demoAIAgent = []"
  by (simp_all add: demoAIAgent_def agent.extend_def ai_agent.fields_def readyAgent_def
      freshAgent_def newCrawlerAgent_def)

lemma demo_first_shot:
  "saveScreenshot demoJoin (demoIO 1000) ''A'' (demoAIAgent, emptyDisk) =
     (''out/screenshots/screenshot-1000-1.jpg'',
      demoAIAgent\<lparr>screenshotCounter := Suc 0\<rparr>,
      \<lparr>existingPaths = [''out/screenshots''],
       writtenFiles = [(''out/screenshots/screenshot-1000-1.jpg'', ''A'')]\<rparr>)"
  by (simp add: saveScreenshot_def screenshotFilename_def showNat_demo demoJoin_def
      demoAIAgent_simps demoIO_def emptyDisk_def Let_def)

theorem screenshot_files_distinct_witness:
  "inj_on (demoJoin (demoJoin (outputDir demoAIAgent) ''screenshots''))
     {name. \<exists>t c. name = screenshotFilename t c}
   \<and> map fst (writtenFiles (snd (saveScreenshots demoJoin
       [(demoIO 1000, ''A''), (demoIO 1000, ''B'')] (demoAIAgent, emptyDisk)))) =
     [''out/screenshots/screenshot-1000-1.jpg'', ''out/screenshots/screenshot-1000-2.jpg'']"
proof -
  have i: "inj (demoJoin (demoJoin (outputDir demoAIAgent) ''screenshots''))"
    by (rule demoJoin_inj)
  have i_on: "inj_on (demoJoin (demoJoin (outputDir demoAIAgent) ''screenshots''))
      {name. \<exists>t c. name = screenshotFilename t c}"
    using i by (rule inj_on_subset) simp
  have second: "saveScreenshot demoJoin (demoIO 1000) ''B''
      (demoAIAgent\<lparr>screenshotCounter := Suc 0\<rparr>,
       \<lparr>existingPaths = [''out/screenshots''],
        writtenFiles = [(''out/screenshots/screenshot-1000-1.jpg'', ''A'')]\<rparr>) =
     (''out/screenshots/screenshot-1000-2.jpg'',
      demoAIAgent\<lparr>screenshotCounter := Suc (Suc 0)\<rparr>,
      \<lparr>existingPaths = [''out/screenshots''],
       writtenFiles = [(''out/screenshots/screenshot-1000-1.jpg'', ''A''),
                       (''out/screenshots/screenshot-1000-2.jpg'', ''B'')]\<rparr>)"
    by (simp add: saveScreenshot_def screenshotFilename_def showNat_demo demoJoin_def
        demoAIAgent_simps demoIO_def Let_def)
  show ?thesis
    using i_on screenshot_files_distinct
      [of demoJoin demoAIAgent "[(demoIO 1000, ''A''), (demoIO 1000, ''B'')]" emptyDisk,
        OF i_on]
    by (simp add: demo_first_shot second)
qed

text \<open>
  One agent writes a screenshot, is initialized again, and writes a second one while the
  clock reads the same millisecond: \<open>initialize\<close> has reset the counter, and the second
  write goes to the path of the first.
\<close>

theorem screenshot_name_reused_after_initialize:
  "fst (saveScreenshot demoJoin (demoIO 1000) ''A'' (demoAIAgent, emptyDisk)) =
     ''out/screenshots/screenshot-1000-1.jpg''
   \<and> fst (initializeAI demoEnv (fst afterFirstShot)) =
     \<lparr>success = True, error = None, data = None\<rparr>
   \<and> fst (saveScreenshot demoJoin (demoIO 1000) ''B'' (reinitialized, snd afterFirstShot)) =
     ''out/screenshots/screenshot-1000-1.jpg''
   \<and> map fst (writtenFiles (snd (snd
       (saveScreenshot demoJoin (demoIO 1000) ''B'' (reinitialized, snd afterFirstShot))))) =
     [''out/screenshots/screenshot-1000-1.jpg'', ''out/screenshots/screenshot-1000-1.jpg'']"
proof -
  have after: "afterFirstShot =
      (demoAIAgent\<lparr>screenshotCounter := Suc 0\<rparr>,
       \<lparr>existingPaths = [''out/screenshots''],
        writtenFiles = [(''out/screenshots/screenshot-1000-1.jpg'', ''A'')]\<rparr>)"
    by (simp add: afterFirstShot_def demo_first_shot)
  have init: "initializeAI demoEnv (demoAIAgent\<lparr>screenshotCounter := Suc 0\<rparr>) =
      (\<lparr>success = True, error = None, data = None\<rparr>,
       demoAIAgent\<lparr>calls := [CallInitialize False], isInitialized := True,
         screenshotCounter := 0\<rparr>)"
    by (simp add: initializeAI_def initialize_def flow demoEnv_simps demoAIAgent_simps
        succeed_def)
  have again: "saveScreenshot demoJoin (demoIO 1000) ''B''
      (demoAIAgent\<lparr>calls := [CallInitialize False], isInitialized := True,
         screenshotCounter := 0\<rparr>,
       \<lparr>existingPaths = [''out/screenshots''],
        writtenFiles = [(''out/screenshots/screenshot-1000-1.jpg'', ''A'')]\<rparr>) =
     (''out/screenshots/screenshot-1000-1.jpg'',
      demoAIAgent\<lparr>calls := [CallInitialize False], isInitialized := True,
         screenshotCounter := Suc 0\<rparr>,
      \<lparr>existingPaths = [''out/screenshots''],
       writtenFiles = [(''out/screenshots/screenshot-1000-1.jpg'', ''A''),
                       (''out/screenshots/screenshot-1000-1.jpg'', ''B'')]\<rparr>)"
    by (simp add: saveScreenshot_def screenshotFilename_def showNat_demo demoJoin_def
        demoAIAgent_simps demoIO_def Let_def)
  show ?thesis
    by (simp add: demo_first_shot reinitialized_def after init again)
qed

end
